theory Spec2Isabelle
  imports Main "HOL-Library.Word"
begin

section \<open>UWB anchor sketch: test-mode orchestration\<close>

text \<open>
  A shallow embedding of \<^verbatim>\<open>sketch_ppk2_merged_accuracy.ino\<close>. The global variables of
  the sketch are the fields of one record; every function of the sketch takes the record and
  returns it updated. What the sketch does to the outside world (GPIO writes, blocking delays,
  serial lines, calls into the radio driver and the ranging library) is appended, in program
  order, to the \<open>trace\<close> field. The status display (\<^verbatim>\<open>updateOLED\<close>,
  \<^verbatim>\<open>updateOledDisplay\<close> and the variable \<^verbatim>\<open>lastOledUpdate\<close>) is write-only for the
  rest of the sketch and is left out. The millisecond clock \<^verbatim>\<open>millis()\<close> is read from
  a microsecond counter that only \<^verbatim>\<open>delay\<close>, \<^verbatim>\<open>delayMicroseconds\<close> and the passing of
  time between two iterations of the main loop advance.
  \<^verbatim>\<open>unsigned long\<close> and \<^verbatim>\<open>int\<close> are 32 bits wide on the ESP32: both are \<open>32 word\<close>,
  read with \<open>sint\<close> where the source compares an \<^verbatim>\<open>int\<close>.
\<close>

subsection \<open>Data model\<close>

datatype TestMode =
  MODE_NONE | MODE_IDLE_TEST | MODE_RX_TEST | MODE_TX_TEST
  | MODE_RANGING_TEST | MODE_SLEEP_CYCLE | MODE_AUTO_SEQUENCE

datatype AnchorState = STATE_IDLE | STATE_ACTIVE

datatype SequenceStep =
  SEQ_RX_1 | SEQ_IDLE_1 | SEQ_TX | SEQ_IDLE_2 | SEQ_RX_2 | SEQ_IDLE_3 | SEQ_SLEEP | SEQ_COMPLETE

datatype pin = PPK2_TX_PIN | PPK2_RX_PIN | GPIO32 | GPIO33

datatype level = LOW | HIGH

text \<open>Configuration bytes of the radio driver; their numeric values live in the driver.\<close>

datatype radio_const = TX_PULSE_FREQ_16MHZ | TRX_RATE_6800KBPS | TX_PREAMBLE_LEN_128

text \<open>
  The handle that the ranging library passes to \<^verbatim>\<open>newRange\<close>; the computed range and the
  six timestamps of a result record are read from it.
\<close>

datatype DW1000Device = DeviceHandle nat

text \<open>One constructor for each \<^verbatim>\<open>Serial.printf\<close> site, carrying the printed arguments.\<close>

datatype serial_line =
  Println string
  | RANGE_RECORD "32 word" DW1000Device "32 word" "32 word" "32 word"
  | TEST_COMPLETE "32 word" "32 word" "32 word"
  | STOP_TEST_T "32 word"
  | START_TEST "32 word" "32 word"
  | RANGING_TEST_Starting "32 word"
  | TX_TEST_Active "32 word"
  | SLEEP_CYCLE_Starting "32 word"
  | AUTO_Starting "8 word"
  | Channel_configured "8 word" "16 word"

datatype driver_call =
  DW1000_idle | DW1000_clearInterrupts | DW1000_receivePermanently bool
  | DW1000_newReceive | DW1000_setDefaults | DW1000_startReceive
  | DW1000_newTransmit | DW1000_setData string nat | DW1000_startTransmit
  | DW1000_deepSleep | DW1000_spiWakeup | DW1000_reset | DW1000_begin | DW1000_select
  | DW1000_attachSentHandler | DW1000_attachReceivedHandler
  | DW1000_attachReceiveTimeoutHandler | DW1000_attachReceiveFailedHandler
  | DW1000_attachReceiveTimestampAvailableHandler
  | DW1000_newConfiguration | DW1000_setChannel "8 word" | DW1000_setAntennaDelay "16 word"
  | DW1000_enableMode "radio_const list" | DW1000_commitConfiguration
  | SPI_end | SPI_begin
  | DW1000Ranging_initCommunication | DW1000Ranging_attachNewRange
  | DW1000Ranging_attachNewDevice | DW1000Ranging_attachInactiveDevice
  | DW1000Ranging_startAsAnchor "radio_const list" | DW1000Ranging_loop
  | Serial_flush

datatype effect =
  DigitalWrite pin level
  | Delay nat
  | DelayMicroseconds nat
  | Serial serial_line
  | Driver driver_call

record state =
  configOption :: "8 word"
  channel :: "8 word"
  pulseFrequency :: radio_const
  dataRate :: radio_const
  preambleLength :: radio_const
  currentTestMode :: TestMode
  usingRangingLayer :: bool
  currentState :: AnchorState
  sleepStartTime :: "32 word"
  sleepDuration :: "32 word"
  inDeepSleep :: bool
  lastTxTime :: "32 word"
  txInterval :: "32 word"
  txInProgress :: bool
  currentSequenceStep :: SequenceStep
  sequenceStepStartTime :: "32 word"
  autoSequenceActive :: bool
  rangingTestTargetCount :: "32 word"
  rangingTestCurrentCount :: "32 word"
  rangingTestActive :: bool
  pin25PulseCount :: "32 word"
  pin26PulseCount :: "32 word"
  rangingSequenceStartTime :: "32 word"
  rangingIdlePeriodActive :: bool
  lastButtonState :: level
  lastDebounceTime :: "32 word"
  pin25 :: level
  pin26 :: level
  micros :: nat
  oob :: bool
  trace :: "effect list"

text \<open>
  \<open>pin25\<close> and \<open>pin26\<close> are the levels of the two marker pins, \<open>micros\<close> the time since
  boot in microseconds. \<open>oob\<close> records that a lookup table was read outside its bounds, which
  is undefined behaviour in C++; no function of the sketch ever clears it.
\<close>

subsection \<open>Primitives\<close>

definition do_all :: "('s \<Rightarrow> 's) list \<Rightarrow> 's \<Rightarrow> 's" where
  "do_all fs s = fold (\<lambda>f. f) fs s"

definition emit :: "effect \<Rightarrow> state \<Rightarrow> state" where
  "emit e s = s\<lparr>trace := trace s @ [e]\<rparr>"

definition millis :: "state \<Rightarrow> 32 word" where
  "millis s = word_of_nat (micros s div 1000)"

definition elapse :: "nat \<Rightarrow> state \<Rightarrow> state" where
  "elapse us s = s\<lparr>micros := micros s + us\<rparr>"

definition delay :: "nat \<Rightarrow> state \<Rightarrow> state" where
  "delay ms s = emit (Delay ms) (elapse (1000 * ms) s)"

definition delayMicroseconds :: "nat \<Rightarrow> state \<Rightarrow> state" where
  "delayMicroseconds us s = emit (DelayMicroseconds us) (elapse us s)"

definition digitalWrite :: "pin \<Rightarrow> level \<Rightarrow> state \<Rightarrow> state" where
  "digitalWrite p l s =
     emit (DigitalWrite p l)
       (case p of PPK2_TX_PIN \<Rightarrow> s\<lparr>pin25 := l\<rparr> | PPK2_RX_PIN \<Rightarrow> s\<lparr>pin26 := l\<rparr>
        | _ \<Rightarrow> s)"

definition serial :: "serial_line \<Rightarrow> state \<Rightarrow> state" where
  "serial l s = emit (Serial l) s"

definition driver :: "driver_call \<Rightarrow> state \<Rightarrow> state" where
  "driver c s = emit (Driver c) s"

text \<open>Reading a C array: \<open>None\<close> stands for a read outside the array.\<close>

definition array_read :: "'a list \<Rightarrow> nat \<Rightarrow> 'a option" where
  "array_read xs i = (if i < length xs then Some (xs ! i) else None)"

subsection \<open>Lookup tables\<close>

definition channelMap :: "8 word list" where
  "channelMap = [0, 1, 2, 3, 4, 5, 7]"

definition antennaDelays :: "16 word list" where
  "antennaDelays = [16534, 16525, 16517, 16531, 16383, 16534, 16534, 16401]"

definition getAntennaDelayForChannel :: "8 word \<Rightarrow> 16 word option" where
  "getAntennaDelayForChannel ch =
     (if ch \<le> 7 then array_read antennaDelays (unat ch) else Some 16534)"

text \<open>The first statement of \<^verbatim>\<open>applyChannelConfiguration\<close>: the channel of a configuration index.\<close>

definition channelForOption :: "8 word \<Rightarrow> 8 word option" where
  "channelForOption opt = (if opt \<le> 6 then array_read channelMap (unat opt) else Some 5)"

subsection \<open>Mode switch\<close>

definition customMode :: "radio_const list" where
  "customMode = [TRX_RATE_6800KBPS, TX_PULSE_FREQ_16MHZ, TX_PREAMBLE_LEN_128]"

definition applyChannelConfiguration :: "state \<Rightarrow> state" where
  "applyChannelConfiguration s =
     (case channelForOption (configOption s) of
        None \<Rightarrow> s\<lparr>oob := True\<rparr>
      | Some ch \<Rightarrow>
          (case getAntennaDelayForChannel ch of
             None \<Rightarrow> s\<lparr>channel := ch, oob := True\<rparr>
           | Some antennaDelay \<Rightarrow>
               do_all [
                 (\<lambda>s. s\<lparr>channel := ch\<rparr>),
                 driver SPI_end,
                 driver SPI_begin,
                 driver DW1000_reset,
                 delay 5,
                 driver DW1000Ranging_initCommunication,
                 driver (DW1000_setAntennaDelay antennaDelay),
                 (\<lambda>s. s\<lparr>pulseFrequency := TX_PULSE_FREQ_16MHZ\<rparr>),
                 (\<lambda>s. s\<lparr>dataRate := TRX_RATE_6800KBPS\<rparr>),
                 (\<lambda>s. s\<lparr>preambleLength := TX_PREAMBLE_LEN_128\<rparr>),
                 driver DW1000Ranging_attachNewRange,
                 driver DW1000Ranging_attachNewDevice,
                 driver DW1000Ranging_attachInactiveDevice,
                 (\<lambda>s. driver (DW1000Ranging_startAsAnchor
                          [dataRate s, pulseFrequency s, preambleLength s]) s),
                 driver (DW1000_setChannel ch),
                 driver DW1000_commitConfiguration,
                 driver DW1000_attachReceiveTimestampAvailableHandler,
                 (\<lambda>s. s\<lparr>usingRangingLayer := True\<rparr>),
                 serial (Channel_configured ch antennaDelay)
               ] s))"

definition initializeDirectMode :: "state \<Rightarrow> state" where
  "initializeDirectMode s =
     (if usingRangingLayer s then
        (case getAntennaDelayForChannel (channel s) of
           None \<Rightarrow> s\<lparr>oob := True\<rparr>
         | Some antennaDelay \<Rightarrow>
             do_all [
               serial (Println ''MODE: Direct control initialized''),
               driver DW1000_reset,
               delay 5,
               driver DW1000_begin,
               driver DW1000_select,
               driver DW1000_attachSentHandler,
               driver DW1000_attachReceivedHandler,
               driver DW1000_attachReceiveTimeoutHandler,
               driver DW1000_attachReceiveFailedHandler,
               driver DW1000_newConfiguration,
               driver DW1000_setDefaults,
               (\<lambda>s. driver (DW1000_setChannel (channel s)) s),
               driver (DW1000_setAntennaDelay antennaDelay),
               driver (DW1000_enableMode customMode),
               driver DW1000_commitConfiguration,
               (\<lambda>s. s\<lparr>usingRangingLayer := False\<rparr>)
             ] s)
      else s)"

definition initializeRangingMode :: "state \<Rightarrow> state" where
  "initializeRangingMode s =
     (if \<not> usingRangingLayer s then
        do_all [
          serial (Println ''MODE: Ranging protocol initialized''),
          applyChannelConfiguration,
          (\<lambda>s. s\<lparr>usingRangingLayer := True\<rparr>)
        ] s
      else s)"

subsection \<open>Radio event handlers\<close>

definition handleSentPowerProfile :: "state \<Rightarrow> state" where
  "handleSentPowerProfile s =
     do_all [digitalWrite PPK2_TX_PIN LOW, (\<lambda>s. s\<lparr>txInProgress := False\<rparr>)] s"

definition handleReceivedPowerProfile :: "state \<Rightarrow> state" where
  "handleReceivedPowerProfile s =
     (if currentTestMode s = MODE_RX_TEST
      then do_all [driver DW1000_newReceive, driver DW1000_startReceive] s
      else s)"

definition handleReceiveTimeoutPowerProfile :: "state \<Rightarrow> state" where
  "handleReceiveTimeoutPowerProfile s =
     (if currentTestMode s = MODE_RX_TEST
      then do_all [driver DW1000_newReceive, driver DW1000_startReceive] s
      else s)"

definition handleReceiveFailedPowerProfile :: "state \<Rightarrow> state" where
  "handleReceiveFailedPowerProfile s =
     (if currentTestMode s = MODE_RX_TEST
      then do_all [driver DW1000_newReceive, driver DW1000_startReceive] s
      else s)"

definition handleTimestampAvailable :: "state \<Rightarrow> state" where
  "handleTimestampAvailable s =
     (if currentTestMode s = MODE_RANGING_TEST \<and> currentState s = STATE_ACTIVE
         \<and> rangingTestActive s
      then do_all [
             digitalWrite PPK2_TX_PIN HIGH,
             delayMicroseconds 50,
             digitalWrite PPK2_TX_PIN LOW,
             (\<lambda>s. s\<lparr>pin25PulseCount := pin25PulseCount s + 1\<rparr>)
           ] s
      else s)"

subsection \<open>Ranging test\<close>

definition stopRangingTest :: "state \<Rightarrow> state" where
  "stopRangingTest s =
     do_all [
       (\<lambda>s. s\<lparr>rangingTestActive := False\<rparr>),
       (\<lambda>s. s\<lparr>rangingIdlePeriodActive := False\<rparr>),
       (\<lambda>s. s\<lparr>currentState := STATE_IDLE\<rparr>),
       (\<lambda>s. s\<lparr>currentTestMode := MODE_IDLE_TEST\<rparr>),
       (\<lambda>s. serial (STOP_TEST_T (millis s)) s),
       digitalWrite PPK2_TX_PIN HIGH,
       digitalWrite PPK2_RX_PIN HIGH,
       delay 20,
       digitalWrite PPK2_TX_PIN LOW,
       digitalWrite PPK2_RX_PIN LOW,
       delay 20,
       initializeDirectMode,
       driver DW1000_idle,
       driver DW1000_clearInterrupts,
       driver (DW1000_receivePermanently False),
       serial (Println ''RANGING_TEST: Complete - entered idle mode'')
     ] s"

definition newRange :: "DW1000Device option \<Rightarrow> state \<Rightarrow> state" where
  "newRange device s =
     (case device of
        None \<Rightarrow> s
      | Some dev \<Rightarrow>
          if currentTestMode s = MODE_RANGING_TEST \<and> currentState s = STATE_ACTIVE
             \<and> rangingTestActive s
          then do_all [
                 (\<lambda>s. s\<lparr>pin26PulseCount := pin26PulseCount s + 1\<rparr>),
                 (\<lambda>s. s\<lparr>rangingTestCurrentCount := rangingTestCurrentCount s + 1\<rparr>),
                 digitalWrite PPK2_RX_PIN HIGH,
                 delayMicroseconds 2000,
                 digitalWrite PPK2_RX_PIN LOW,
                 (\<lambda>s. serial (RANGE_RECORD (rangingTestCurrentCount s) dev
                          (pin25PulseCount s) (pin26PulseCount s) (millis s)) s),
                 (\<lambda>s. if sint (rangingTestTargetCount s) \<le> sint (rangingTestCurrentCount s)
                      then do_all [
                             (\<lambda>s. serial (TEST_COMPLETE (pin25PulseCount s)
                                      (pin26PulseCount s) (millis s)) s),
                             stopRangingTest
                           ] s
                      else s)
               ] s
          else s)"

definition startRangingTest :: "32 word \<Rightarrow> state \<Rightarrow> state" where
  "startRangingTest count s =
     do_all [
       serial (RANGING_TEST_Starting count),
       initializeDirectMode,
       driver DW1000_idle,
       driver DW1000_clearInterrupts,
       driver (DW1000_receivePermanently False),
       (\<lambda>s. s\<lparr>rangingTestTargetCount := count\<rparr>),
       (\<lambda>s. s\<lparr>rangingTestCurrentCount := 0\<rparr>),
       (\<lambda>s. s\<lparr>pin25PulseCount := 0\<rparr>),
       (\<lambda>s. s\<lparr>pin26PulseCount := 0\<rparr>),
       (\<lambda>s. s\<lparr>rangingSequenceStartTime := millis s\<rparr>),
       (\<lambda>s. s\<lparr>rangingIdlePeriodActive := True\<rparr>),
       (\<lambda>s. s\<lparr>rangingTestActive := False\<rparr>),
       (\<lambda>s. s\<lparr>currentTestMode := MODE_RANGING_TEST\<rparr>),
       (\<lambda>s. s\<lparr>currentState := STATE_IDLE\<rparr>)
     ] s"

definition RANGING_IDLE_DURATION :: "32 word" where
  "RANGING_IDLE_DURATION = 1000"

definition handleRangingTest :: "state \<Rightarrow> state" where
  "handleRangingTest s =
     (if rangingIdlePeriodActive s then
        (if RANGING_IDLE_DURATION \<le> millis s - rangingSequenceStartTime s then
           do_all [
             serial (Println ''RANGING: Active start''),
             initializeRangingMode,
             digitalWrite PPK2_TX_PIN HIGH,
             digitalWrite PPK2_RX_PIN HIGH,
             delay 20,
             digitalWrite PPK2_TX_PIN LOW,
             digitalWrite PPK2_RX_PIN LOW,
             delay 20,
             (\<lambda>s. serial (START_TEST (rangingTestTargetCount s) (millis s)) s),
             (\<lambda>s. s\<lparr>rangingIdlePeriodActive := False\<rparr>),
             (\<lambda>s. s\<lparr>rangingTestActive := True\<rparr>),
             (\<lambda>s. s\<lparr>currentState := STATE_ACTIVE\<rparr>),
             serial (Println ''RANGING_TEST: Active - waiting for tag'')
           ] s
         else s)
      else if currentState s = STATE_ACTIVE \<and> rangingTestActive s
      then driver DW1000Ranging_loop s
      else s)"

subsection \<open>Stopping\<close>

definition stopAllTests :: "state \<Rightarrow> state" where
  "stopAllTests s =
     do_all [
       (\<lambda>s. s\<lparr>currentTestMode := MODE_NONE\<rparr>),
       (\<lambda>s. s\<lparr>currentState := STATE_IDLE\<rparr>),
       (\<lambda>s. s\<lparr>inDeepSleep := False\<rparr>),
       (\<lambda>s. s\<lparr>txInProgress := False\<rparr>),
       (\<lambda>s. s\<lparr>rangingTestActive := False\<rparr>),
       (\<lambda>s. s\<lparr>rangingIdlePeriodActive := False\<rparr>),
       (\<lambda>s. s\<lparr>autoSequenceActive := False\<rparr>),
       digitalWrite PPK2_TX_PIN LOW,
       digitalWrite PPK2_RX_PIN LOW,
       (\<lambda>s. if usingRangingLayer s
            then do_all [
                   driver DW1000_newReceive,
                   driver (DW1000_receivePermanently True),
                   driver DW1000_startReceive
                 ] s
            else initializeRangingMode s)
     ] s"

subsection \<open>Power tests\<close>

definition startIdleTest :: "state \<Rightarrow> state" where
  "startIdleTest s =
     do_all [
       serial (Println ''IDLE_TEST: Starting - measuring idle power''),
       initializeDirectMode,
       driver DW1000_idle,
       driver DW1000_clearInterrupts,
       driver (DW1000_receivePermanently False),
       (\<lambda>s. s\<lparr>currentTestMode := MODE_IDLE_TEST\<rparr>),
       serial (Println ''IDLE_TEST: Active - minimal power mode'')
     ] s"

definition startRxTest :: "state \<Rightarrow> state" where
  "startRxTest s =
     do_all [
       serial (Println ''RX_TEST: Starting - measuring RX power''),
       initializeDirectMode,
       driver DW1000_newReceive,
       driver DW1000_setDefaults,
       driver (DW1000_receivePermanently False),
       driver DW1000_startReceive,
       digitalWrite PPK2_RX_PIN HIGH,
       (\<lambda>s. s\<lparr>currentTestMode := MODE_RX_TEST\<rparr>),
       serial (Println ''RX_TEST: Active - listening continuously'')
     ] s"

definition startTxTest :: "state \<Rightarrow> state" where
  "startTxTest s =
     do_all [
       (\<lambda>s. serial (TX_TEST_Active (txInterval s)) s),
       initializeDirectMode,
       driver DW1000_idle,
       (\<lambda>s. s\<lparr>lastTxTime := millis s\<rparr>),
       (\<lambda>s. s\<lparr>currentTestMode := MODE_TX_TEST\<rparr>)
     ] s"

definition startSleepTest :: "state \<Rightarrow> state" where
  "startSleepTest s =
     do_all [
       (\<lambda>s. serial (SLEEP_CYCLE_Starting (sleepDuration s)) s),
       stopAllTests,
       driver DW1000_clearInterrupts,
       driver DW1000_idle,
       (\<lambda>s. s\<lparr>sleepStartTime := millis s\<rparr>),
       driver Serial_flush,
       delay 100,
       driver DW1000_deepSleep,
       (\<lambda>s. s\<lparr>inDeepSleep := True\<rparr>),
       (\<lambda>s. s\<lparr>currentTestMode := MODE_SLEEP_CYCLE\<rparr>),
       serial (Println ''SLEEP_CYCLE: Active - measuring ultra-low power'')
     ] s"

definition testData :: string where
  "testData = ''PWR_PROFILE_TX_EXTENDED_MESSAGE_FOR_LONGER_TRANSMISSION_TIME_AND_BETTER_POWER_MEASUREMENT_100B''"

text \<open>
  The periodic transmission that \<^verbatim>\<open>handleTxTest\<close> and the transmit step of the auto
  sequence both contain, statement for statement.
\<close>

definition handleTxTest :: "state \<Rightarrow> state" where
  "handleTxTest s =
     do_all [
       (\<lambda>s. if txInterval s \<le> millis s - lastTxTime s \<and> \<not> txInProgress s
            then do_all [
                   digitalWrite PPK2_TX_PIN HIGH,
                   driver DW1000_newTransmit,
                   driver DW1000_setDefaults,
                   driver (DW1000_setData testData 100),
                   (\<lambda>s. s\<lparr>txInProgress := True\<rparr>),
                   driver DW1000_startTransmit,
                   (\<lambda>s. s\<lparr>lastTxTime := millis s\<rparr>)
                 ] s
            else s),
       (\<lambda>s. if \<not> txInProgress s \<and> 10 < millis s - lastTxTime s
            then driver DW1000_idle s
            else s)
     ] s"

definition handleSleepTest :: "state \<Rightarrow> state" where
  "handleSleepTest s =
     (if inDeepSleep s then
        (if sleepDuration s \<le> millis s - sleepStartTime s then
           do_all [
             serial (Println ''SLEEP_CYCLE: Complete - chip reinitialized''),
             driver DW1000_spiWakeup,
             delay 10,
             applyChannelConfiguration,
             (\<lambda>s. s\<lparr>inDeepSleep := False\<rparr>),
             (\<lambda>s. s\<lparr>currentTestMode := MODE_NONE\<rparr>)
           ] s
         else s)
      else
        (if sleepDuration s \<le> millis s - sleepStartTime s then
           do_all [
             (\<lambda>s. s\<lparr>currentTestMode := MODE_NONE\<rparr>),
             serial (Println ''SLEEP_CYCLE: Complete'')
           ] s
         else s))"

subsection \<open>Auto sequence\<close>

definition startAutoSequence :: "state \<Rightarrow> state" where
  "startAutoSequence s =
     do_all [
       (\<lambda>s. serial (AUTO_Starting (channel s)) s),
       (\<lambda>s. s\<lparr>currentSequenceStep := SEQ_RX_1\<rparr>),
       (\<lambda>s. s\<lparr>sequenceStepStartTime := millis s\<rparr>),
       (\<lambda>s. s\<lparr>autoSequenceActive := True\<rparr>),
       (\<lambda>s. s\<lparr>currentTestMode := MODE_AUTO_SEQUENCE\<rparr>),
       serial (Println ''AUTO: Step 1/7 - RX_TEST (2sec)''),
       initializeDirectMode,
       driver DW1000_newReceive,
       driver DW1000_setDefaults,
       driver (DW1000_receivePermanently False),
       driver DW1000_startReceive,
       digitalWrite PPK2_RX_PIN HIGH
     ] s"

text \<open>
  \<open>elapsed\<close> is computed once, on entry, as in the source; the cases of the \<^verbatim>\<open>switch\<close>
  follow in the source's order.
\<close>

definition handleAutoSequence :: "state \<Rightarrow> state" where
  "handleAutoSequence s =
     (if \<not> autoSequenceActive s then s
      else
        let elapsed = millis s - sequenceStepStartTime s in
        case currentSequenceStep s of
          SEQ_RX_1 \<Rightarrow>
            if 2000 \<le> elapsed then
              do_all [
                digitalWrite PPK2_RX_PIN LOW,
                serial (Println ''AUTO: Step 2/7 - IDLE_TEST (4sec)''),
                driver DW1000_idle,
                driver DW1000_clearInterrupts,
                driver (DW1000_receivePermanently False),
                (\<lambda>s. s\<lparr>currentSequenceStep := SEQ_IDLE_1\<rparr>),
                (\<lambda>s. s\<lparr>sequenceStepStartTime := millis s\<rparr>)
              ] s
            else s
        | SEQ_IDLE_1 \<Rightarrow>
            if 4000 \<le> elapsed then
              do_all [
                serial (Println ''AUTO: Step 3/7 - TX_TEST (3sec, 500ms interval)''),
                driver DW1000_idle,
                (\<lambda>s. s\<lparr>txInterval := 500\<rparr>),
                (\<lambda>s. s\<lparr>lastTxTime := millis s\<rparr>),
                (\<lambda>s. s\<lparr>currentSequenceStep := SEQ_TX\<rparr>),
                (\<lambda>s. s\<lparr>sequenceStepStartTime := millis s\<rparr>)
              ] s
            else s
        | SEQ_TX \<Rightarrow>
            do_all [
              handleTxTest,
              (\<lambda>s. if 3000 \<le> elapsed then
                     do_all [
                       serial (Println ''AUTO: Step 4/7 - IDLE_TEST (2sec)''),
                       driver DW1000_idle,
                       driver DW1000_clearInterrupts,
                       driver (DW1000_receivePermanently False),
                       (\<lambda>s. s\<lparr>currentSequenceStep := SEQ_IDLE_2\<rparr>),
                       (\<lambda>s. s\<lparr>sequenceStepStartTime := millis s\<rparr>)
                     ] s
                   else s)
            ] s
        | SEQ_IDLE_2 \<Rightarrow>
            if 2000 \<le> elapsed then
              do_all [
                serial (Println ''AUTO: Step 5/7 - RX_TEST (4sec)''),
                driver DW1000_newReceive,
                driver DW1000_setDefaults,
                driver (DW1000_receivePermanently False),
                driver DW1000_startReceive,
                digitalWrite PPK2_RX_PIN HIGH,
                (\<lambda>s. s\<lparr>currentSequenceStep := SEQ_RX_2\<rparr>),
                (\<lambda>s. s\<lparr>sequenceStepStartTime := millis s\<rparr>)
              ] s
            else s
        | SEQ_RX_2 \<Rightarrow>
            if 4000 \<le> elapsed then
              do_all [
                digitalWrite PPK2_RX_PIN LOW,
                serial (Println ''AUTO: Step 6/7 - IDLE_TEST (2sec)''),
                driver DW1000_idle,
                driver DW1000_clearInterrupts,
                driver (DW1000_receivePermanently False),
                (\<lambda>s. s\<lparr>currentSequenceStep := SEQ_IDLE_3\<rparr>),
                (\<lambda>s. s\<lparr>sequenceStepStartTime := millis s\<rparr>)
              ] s
            else s
        | SEQ_IDLE_3 \<Rightarrow>
            if 2000 \<le> elapsed then
              do_all [
                serial (Println ''AUTO: Step 7/7 - SLEEP_CYCLE (3000ms)''),
                driver DW1000_clearInterrupts,
                driver DW1000_idle,
                (\<lambda>s. s\<lparr>sleepStartTime := millis s\<rparr>),
                (\<lambda>s. s\<lparr>sleepDuration := 3000\<rparr>),
                driver Serial_flush,
                delay 100,
                driver DW1000_deepSleep,
                (\<lambda>s. s\<lparr>inDeepSleep := True\<rparr>),
                (\<lambda>s. s\<lparr>currentSequenceStep := SEQ_SLEEP\<rparr>),
                (\<lambda>s. s\<lparr>sequenceStepStartTime := millis s\<rparr>)
              ] s
            else s
        | SEQ_SLEEP \<Rightarrow>
            if inDeepSleep s then
              (if sleepDuration s \<le> millis s - sleepStartTime s then
                 do_all [
                   serial (Println ''AUTO: Sleep complete - reinitializing''),
                   driver DW1000_spiWakeup,
                   delay 10,
                   applyChannelConfiguration,
                   (\<lambda>s. s\<lparr>inDeepSleep := False\<rparr>),
                   (\<lambda>s. s\<lparr>currentSequenceStep := SEQ_COMPLETE\<rparr>)
                 ] s
               else s)
            else s
        | SEQ_COMPLETE \<Rightarrow>
            do_all [
              serial (Println ''AUTO: Sequence complete''),
              (\<lambda>s. s\<lparr>autoSequenceActive := False\<rparr>),
              (\<lambda>s. s\<lparr>currentTestMode := MODE_NONE\<rparr>)
            ] s)"

subsection \<open>Command interface\<close>

text \<open>
  The methods of the Arduino \<^verbatim>\<open>String\<close> class that \<^verbatim>\<open>loop\<close> and \<^verbatim>\<open>parseCommand\<close>
  call, on command lines without a NUL byte. \<open>indexOf\<close> returns \<open>None\<close> where the method
  returns \<open>-1\<close>. \<^verbatim>\<open>toInt\<close> is the C library's \<^verbatim>\<open>atol\<close>: white space, an optional sign,
  then decimal digits up to the first other character, saturating at the bounds of a 32-bit
  \<^verbatim>\<open>long\<close>.
\<close>

fun indexOf :: "char \<Rightarrow> string \<Rightarrow> nat option" where
  "indexOf c [] = None"
| "indexOf c (x # xs) =
     (if x = c then Some 0 else (case indexOf c xs of None \<Rightarrow> None | Some i \<Rightarrow> Some (Suc i)))"

definition isspace :: "char \<Rightarrow> bool" where
  "isspace c = (of_char c = (32::nat) \<or> ((9::nat) \<le> of_char c \<and> of_char c \<le> (13::nat)))"

definition isdigit :: "char \<Rightarrow> bool" where
  "isdigit c = ((48::nat) \<le> of_char c \<and> of_char c \<le> (57::nat))"

fun digits_value :: "int \<Rightarrow> string \<Rightarrow> int" where
  "digits_value acc [] = acc"
| "digits_value acc (c # cs) =
     (if isdigit c then digits_value (10 * acc + (of_char c - 48)) cs else acc)"

definition toInt :: "string \<Rightarrow> 32 word" where
  "toInt str =
     (let t = dropWhile isspace str in
      case t of
        [] \<Rightarrow> 0
      | c # cs \<Rightarrow>
          if c = CHR ''-'' then word_of_int (max (- (2 ^ 31)) (- digits_value 0 cs))
          else if c = CHR ''+'' then word_of_int (min (2 ^ 31 - 1) (digits_value 0 cs))
          else word_of_int (min (2 ^ 31 - 1) (digits_value 0 t)))"

definition trim :: "string \<Rightarrow> string" where
  "trim str = rev (dropWhile isspace (rev (dropWhile isspace str)))"

text \<open>The two local variables that the first lines of \<^verbatim>\<open>parseCommand\<close> compute.\<close>

definition command_name :: "string \<Rightarrow> string" where
  "command_name cmd =
     (case indexOf CHR '' '' cmd of Some firstSpace \<Rightarrow> take firstSpace cmd | None \<Rightarrow> cmd)"

definition command_arg1 :: "string \<Rightarrow> 32 word" where
  "command_arg1 cmd =
     (case indexOf CHR '' '' cmd of
        Some firstSpace \<Rightarrow> toInt (drop (firstSpace + 1) cmd)
      | None \<Rightarrow> 0)"

definition parseCommand :: "string \<Rightarrow> state \<Rightarrow> state" where
  "parseCommand cmd s =
     (let command = command_name cmd; arg1 = command_arg1 cmd in
      do_all [
        stopAllTests,
        (\<lambda>s. if command = ''IDLE_TEST'' then startIdleTest s
             else if command = ''RX_TEST'' then startRxTest s
             else if command = ''TX_TEST'' then
               do_all [
                 (\<lambda>s. s\<lparr>txInterval := (if 0 < sint arg1 then arg1 else 50)\<rparr>),
                 startTxTest
               ] s
             else if command = ''RANGING_TEST'' then
               (if 0 < sint arg1 then startRangingTest arg1 s
                else serial (Println ''Usage: RANGING_TEST <count>'') s)
             else if command = ''SLEEP_CYCLE'' then
               do_all [
                 (\<lambda>s. s\<lparr>sleepDuration := (if 0 < sint arg1 then arg1 else 5000)\<rparr>),
                 startSleepTest
               ] s
             else if command = ''auto'' then startAutoSequence s
             else if command = ''STOP_TEST'' then serial (Println ''All tests stopped.'') s
             else serial (Println ''Unknown command.'') s)
      ] s)"

definition debounceDelay :: "32 word" where
  "debounceDelay = 300"

definition handleButtonPress :: "level \<Rightarrow> state \<Rightarrow> state" where
  "handleButtonPress reading s =
     do_all [
       (\<lambda>s. if reading = LOW \<and> lastButtonState s = HIGH
               \<and> debounceDelay < millis s - lastDebounceTime s
            then do_all [
                   (\<lambda>s. if currentTestMode s = MODE_NONE
                        then do_all [
                               (\<lambda>s. s\<lparr>configOption := configOption s + 1\<rparr>),
                               (\<lambda>s. if 6 < configOption s then s\<lparr>configOption := 1\<rparr> else s),
                               applyChannelConfiguration
                             ] s
                        else s),
                   (\<lambda>s. s\<lparr>lastDebounceTime := millis s\<rparr>)
                 ] s
            else s),
       (\<lambda>s. s\<lparr>lastButtonState := reading\<rparr>)
     ] s"

subsection \<open>Boot and main loop\<close>

text \<open>The initialisers of the global variables; both marker pins are low and time starts at 0.\<close>

definition initial_state :: state where
  "initial_state =
     \<lparr> configOption = 1, channel = 1,
       pulseFrequency = TX_PULSE_FREQ_16MHZ, dataRate = TRX_RATE_6800KBPS,
       preambleLength = TX_PREAMBLE_LEN_128,
       currentTestMode = MODE_NONE, usingRangingLayer = False, currentState = STATE_IDLE,
       sleepStartTime = 0, sleepDuration = 0, inDeepSleep = False,
       lastTxTime = 0, txInterval = 50, txInProgress = False,
       currentSequenceStep = SEQ_RX_1, sequenceStepStartTime = 0, autoSequenceActive = False,
       rangingTestTargetCount = 0, rangingTestCurrentCount = 0, rangingTestActive = False,
       pin25PulseCount = 0, pin26PulseCount = 0,
       rangingSequenceStartTime = 0, rangingIdlePeriodActive = False,
       lastButtonState = HIGH, lastDebounceTime = 0,
       pin25 = LOW, pin26 = LOW, micros = 0, oob = False, trace = [] \<rparr>"

text \<open>
  \<^verbatim>\<open>setup()\<close> without the configuration of the peripherals (\<^verbatim>\<open>Serial.begin\<close>,
  \<^verbatim>\<open>pinMode\<close>, \<^verbatim>\<open>Wire.begin\<close>, the display).
\<close>

definition arduino_setup :: "state \<Rightarrow> state" where
  "arduino_setup s =
     do_all [
       delay 2000,
       digitalWrite PPK2_TX_PIN LOW,
       digitalWrite PPK2_RX_PIN LOW,
       digitalWrite GPIO32 LOW,
       digitalWrite GPIO33 LOW,
       driver SPI_begin,
       applyChannelConfiguration,
       serial (Println (CHR 0x0A # ''=== UWB Power Profiling + Solo Ranging ==='')),
       serial (Println ''Power Tests:''),
       serial (Println ''  IDLE_TEST           - Measure idle state power''),
       serial (Println ''  RX_TEST             - Measure receiver power''),
       serial (Println ''  TX_TEST [delay_ms]  - Measure periodic TX power''),
       serial (Println ''  SLEEP_CYCLE <ms>    - Measure deep sleep power''),
       serial (Println ''  auto                - Automated power sequence''),
       serial (Println ''Solo Ranging:''),
       serial (Println ''  RANGING_TEST <count> - Controlled ranging with GPIO markers''),
       serial (Println ''  STOP_TEST           - Stop current test''),
       serial (Println ''  Button: Change channel (1,2,3,4,5,7)'')
     ] s"

text \<open>The \<^verbatim>\<open>switch\<close> of \<^verbatim>\<open>loop()\<close>: the handler of the current test mode.\<close>

definition loop_dispatch :: "state \<Rightarrow> state" where
  "loop_dispatch s =
     (case currentTestMode s of
        MODE_NONE \<Rightarrow> if usingRangingLayer s then driver DW1000Ranging_loop s else s
      | MODE_TX_TEST \<Rightarrow> handleTxTest s
      | MODE_RANGING_TEST \<Rightarrow> handleRangingTest s
      | MODE_SLEEP_CYCLE \<Rightarrow> handleSleepTest s
      | MODE_AUTO_SEQUENCE \<Rightarrow> handleAutoSequence s
      | _ \<Rightarrow> s)"

text \<open>
  One iteration of \<^verbatim>\<open>loop()\<close>: \<open>reading\<close> is the level of the button pin, \<open>line\<close> the
  line that \<^verbatim>\<open>Serial.readStringUntil\<close> returns when input is available.
\<close>

definition loop :: "level \<Rightarrow> string option \<Rightarrow> state \<Rightarrow> state" where
  "loop reading line s =
     do_all [
       handleButtonPress reading,
       (\<lambda>s. case line of None \<Rightarrow> s | Some cmd \<Rightarrow> parseCommand (trim cmd) s),
       loop_dispatch
     ] s"

subsection \<open>Runs\<close>

text \<open>
  What can happen to the sketch while no command arrives: time passes and the main loop runs
  the handler of the current mode (\<open>EvTick us\<close>), or the radio driver or the ranging library
  invokes one of the attached callbacks.
\<close>

datatype event =
  EvTick nat
  | EvTimestamp
  | EvRange "DW1000Device option"
  | EvSent
  | EvReceived
  | EvReceiveTimeout
  | EvReceiveFailed

fun deliver :: "event \<Rightarrow> state \<Rightarrow> state" where
  "deliver (EvTick us) s = loop_dispatch (elapse us s)"
| "deliver EvTimestamp s = handleTimestampAvailable s"
| "deliver (EvRange device) s = newRange device s"
| "deliver EvSent s = handleSentPowerProfile s"
| "deliver EvReceived s = handleReceivedPowerProfile s"
| "deliver EvReceiveTimeout s = handleReceiveTimeoutPowerProfile s"
| "deliver EvReceiveFailed s = handleReceiveFailedPowerProfile s"

definition run :: "event list \<Rightarrow> state \<Rightarrow> state" where
  "run evs s = fold deliver evs s"

subsection \<open>Observations\<close>

text \<open>The completion summary record is the \<^verbatim>\<open>TEST_COMPLETE\<close> line; \<open>summaries\<close> counts them.\<close>

fun is_summary :: "effect \<Rightarrow> bool" where
  "is_summary (Serial (TEST_COMPLETE p25 p26 t)) = True"
| "is_summary e = False"

definition summaries :: "state \<Rightarrow> nat" where
  "summaries s = length (filter is_summary (trace s))"

text \<open>A completion event is a range-computed callback that carries a device.\<close>

fun is_completion :: "event \<Rightarrow> bool" where
  "is_completion (EvRange (Some dev)) = True"
| "is_completion e = False"

definition completions :: "event list \<Rightarrow> nat" where
  "completions evs = length (filter is_completion evs)"

definition ranging_active :: "state \<Rightarrow> bool" where
  "ranging_active s =
     (currentTestMode s = MODE_RANGING_TEST \<and> currentState s = STATE_ACTIVE
      \<and> rangingTestActive s \<and> \<not> rangingIdlePeriodActive s)"

text \<open>Writes that drive a pin high, and the effects that a step from \<open>s\<close> to \<open>s'\<close> added.\<close>

fun is_high_write :: "effect \<Rightarrow> bool" where
  "is_high_write (DigitalWrite p HIGH) = True"
| "is_high_write e = False"

definition high_writes :: "state \<Rightarrow> nat" where
  "high_writes s = length (filter is_high_write (trace s))"

definition new_effects :: "state \<Rightarrow> state \<Rightarrow> effect list" where
  "new_effects s s' = drop (length (trace s)) (trace s')"

text \<open>
  The order of the auto sequence and the duration of each step, as the specification lists
  them.
\<close>

fun next_step :: "SequenceStep \<Rightarrow> SequenceStep" where
  "next_step SEQ_RX_1 = SEQ_IDLE_1"
| "next_step SEQ_IDLE_1 = SEQ_TX"
| "next_step SEQ_TX = SEQ_IDLE_2"
| "next_step SEQ_IDLE_2 = SEQ_RX_2"
| "next_step SEQ_RX_2 = SEQ_IDLE_3"
| "next_step SEQ_IDLE_3 = SEQ_SLEEP"
| "next_step SEQ_SLEEP = SEQ_COMPLETE"
| "next_step SEQ_COMPLETE = SEQ_COMPLETE"

fun step_index :: "SequenceStep \<Rightarrow> nat" where
  "step_index SEQ_RX_1 = 0"
| "step_index SEQ_IDLE_1 = 1"
| "step_index SEQ_TX = 2"
| "step_index SEQ_IDLE_2 = 3"
| "step_index SEQ_RX_2 = 4"
| "step_index SEQ_IDLE_3 = 5"
| "step_index SEQ_SLEEP = 6"
| "step_index SEQ_COMPLETE = 7"

fun step_duration :: "SequenceStep \<Rightarrow> 32 word" where
  "step_duration SEQ_RX_1 = 2000"
| "step_duration SEQ_IDLE_1 = 4000"
| "step_duration SEQ_TX = 3000"
| "step_duration SEQ_IDLE_2 = 2000"
| "step_duration SEQ_RX_2 = 4000"
| "step_duration SEQ_IDLE_3 = 2000"
| "step_duration SEQ_SLEEP = 3000"
| "step_duration SEQ_COMPLETE = 0"

definition recognized_commands :: "string set" where
  "recognized_commands =
     {''IDLE_TEST'', ''RX_TEST'', ''TX_TEST'', ''RANGING_TEST'', ''SLEEP_CYCLE'', ''auto'',
      ''STOP_TEST''}"

subsection \<open>Dating the steps of the auto sequence\<close>

text \<open>
  A run of the auto sequence, observed from outside. Next to the state the observer keeps
  two clock readings, neither of them read from a timer variable of the sketch:
  \<open>step_began\<close>, the moment \<open>currentSequenceStep\<close> took its present value, and
  \<open>step_tick\<close>, the moment the event that changed it was handled.
  \<^verbatim>\<open>handleAutoSequence\<close> writes the step at the end of a transition, after every delay
  of that transition, so a step that it enters begins at the clock reading at the end of
  the event. \<^verbatim>\<open>startAutoSequence\<close> writes the first step before anything that takes
  time, so the first step begins at the clock reading at which it is called.
\<close>

record observed =
  obs_state :: state
  step_began :: "32 word"
  step_tick :: "32 word"

fun event_time :: "event \<Rightarrow> state \<Rightarrow> 32 word" where
  "event_time (EvTick us) s = millis (elapse us s)"
| "event_time e s = millis s"

definition observe :: "event \<Rightarrow> observed \<Rightarrow> observed" where
  "observe e ob =
     (let s' = deliver e (obs_state ob) in
      if currentSequenceStep s' = currentSequenceStep (obs_state ob)
      then ob\<lparr>obs_state := s'\<rparr>
      else \<lparr>obs_state = s', step_began = millis s',
             step_tick = event_time e (obs_state ob)\<rparr>)"

definition observed_run :: "event list \<Rightarrow> state \<Rightarrow> observed" where
  "observed_run evs s0 =
     fold observe evs
       \<lparr>obs_state = startAutoSequence s0, step_began = millis s0, step_tick = millis s0\<rparr>"

text \<open>
  On which clock reading the exit of the current step is due: the sleep step counts from the
  tick that left idle-3, every other step from the moment it began.
\<close>

definition step_due :: "observed \<Rightarrow> nat \<Rightarrow> bool" where
  "step_due ob us =
     (if currentSequenceStep (obs_state ob) = SEQ_SLEEP
      then step_duration SEQ_SLEEP \<le> millis (elapse us (obs_state ob)) - step_tick ob
      else step_duration (currentSequenceStep (obs_state ob))
             \<le> millis (elapse us (obs_state ob)) - step_began ob)"

text \<open>What holds of every observed state of a run of the auto sequence.\<close>

definition obs_inv :: "observed \<Rightarrow> bool" where
  "obs_inv ob =
     (autoSequenceActive (obs_state ob) \<longrightarrow>
        currentTestMode (obs_state ob) = MODE_AUTO_SEQUENCE
        \<and> (currentSequenceStep (obs_state ob) \<noteq> SEQ_COMPLETE \<longrightarrow>
             sequenceStepStartTime (obs_state ob) = step_began ob)
        \<and> (currentSequenceStep (obs_state ob) = SEQ_SLEEP \<longrightarrow>
             sleepDuration (obs_state ob) = 3000
             \<and> inDeepSleep (obs_state ob)
             \<and> sleepStartTime (obs_state ob) = step_tick ob
             \<and> step_began ob = step_tick ob + 100))"

subsection \<open>Example states\<close>

text \<open>
  The sketch after boot; a ranging session of two exchanges that has just become active; a
  session of one exchange that completed and was then stopped by \<^verbatim>\<open>STOP_TEST\<close>; the auto
  sequence after its first six steps.
\<close>

definition booted :: state where
  "booted = arduino_setup initial_state"

definition active_session :: state where
  "active_session = loop_dispatch (elapse 1000000 (parseCommand ''RANGING_TEST 2'' booted))"

definition finished_session :: state where
  "finished_session =
     parseCommand ''STOP_TEST''
       (newRange (Some (DeviceHandle 0))
          (loop_dispatch (elapse 1000000 (parseCommand ''RANGING_TEST 1'' booted))))"

definition six_steps :: "event list" where
  "six_steps =
     [EvTick 2000000, EvTick 4000000, EvTick 3000000, EvTick 2000000, EvTick 4000000,
      EvTick 2000000]"

definition asleep :: state where
  "asleep = run six_steps (parseCommand ''auto'' booted)"

section \<open>Verification\<close>

subsection \<open>Unfolding and lookups\<close>

lemmas prim_defs = do_all_def emit_def elapse_def delay_def delayMicroseconds_def
  digitalWrite_def serial_def driver_def

lemmas handler_defs = loop_dispatch_def handleRangingTest_def handleTimestampAvailable_def
  newRange_def handleSentPowerProfile_def handleReceivedPowerProfile_def
  handleReceiveTimeoutPowerProfile_def handleReceiveFailedPowerProfile_def

lemma length_antennaDelays: "length antennaDelays = 8"
  by (simp add: antennaDelays_def)

lemma length_channelMap: "length channelMap = 7"
  by (simp add: channelMap_def)

lemma antenna_delay_Some:
  "getAntennaDelayForChannel ch = Some (if ch \<le> 7 then antennaDelays ! unat ch else 16534)"
  by (auto simp add: getAntennaDelayForChannel_def array_read_def length_antennaDelays
      word_le_nat_alt)

lemma channel_option_Some:
  "channelForOption opt = Some (if opt \<le> 6 then channelMap ! unat opt else 5)"
  by (auto simp add: channelForOption_def array_read_def length_channelMap word_le_nat_alt)

lemmas mode_defs = initializeDirectMode_def initializeRangingMode_def
  applyChannelConfiguration_def antenna_delay_Some channel_option_Some

lemma run_Nil: "run [] s = s"
  by (simp add: run_def)

lemma run_Cons: "run (e # evs) s = run evs (deliver e s)"
  by (simp add: run_def)

lemma run_append: "run (evs @ evs') s = run evs' (run evs s)"
  by (simp add: run_def)

subsection \<open>Frame lemmas\<close>

lemma sint_succ:
  fixes x y :: "32 word"
  assumes "sint x < sint y"
  shows "sint (x + 1) = sint x + 1"
proof -
  have "sint y < 2 ^ 31" using sint_lt [of y] by simp
  moreover have "- (2 ^ 31) \<le> sint x" using sint_ge [of x] by simp
  ultimately have "signed_take_bit 31 (sint x + 1) = sint x + 1"
    using assms by (intro signed_take_bit_int_eq_self) auto
  then show ?thesis by (simp add: sint_word_ariths)
qed

lemma millis_elapse_ms: "millis (elapse (1000 * k) s) = millis s + word_of_nat k"
  by (simp add: millis_def elapse_def)

lemma elapse_fields:
  "currentTestMode (elapse us s) = currentTestMode s
   \<and> rangingIdlePeriodActive (elapse us s) = rangingIdlePeriodActive s
   \<and> rangingSequenceStartTime (elapse us s) = rangingSequenceStartTime s
   \<and> rangingTestTargetCount (elapse us s) = rangingTestTargetCount s
   \<and> rangingTestCurrentCount (elapse us s) = rangingTestCurrentCount s
   \<and> summaries (elapse us s) = summaries s
   \<and> currentSequenceStep (elapse us s) = currentSequenceStep s
   \<and> autoSequenceActive (elapse us s) = autoSequenceActive s
   \<and> sleepDuration (elapse us s) = sleepDuration s
   \<and> inDeepSleep (elapse us s) = inDeepSleep s
   \<and> sleepStartTime (elapse us s) = sleepStartTime s
   \<and> sequenceStepStartTime (elapse us s) = sequenceStepStartTime s
   \<and> micros (elapse us s) = micros s + us"
  by (simp add: elapse_def summaries_def)

lemma stopAllTests_fields:
  "currentTestMode (stopAllTests s) = MODE_NONE
   \<and> currentState (stopAllTests s) = STATE_IDLE
   \<and> \<not> txInProgress (stopAllTests s)
   \<and> \<not> inDeepSleep (stopAllTests s)
   \<and> \<not> rangingTestActive (stopAllTests s)
   \<and> \<not> rangingIdlePeriodActive (stopAllTests s)
   \<and> \<not> autoSequenceActive (stopAllTests s)
   \<and> pin25 (stopAllTests s) = LOW
   \<and> pin26 (stopAllTests s) = LOW
   \<and> usingRangingLayer (stopAllTests s)
   \<and> rangingTestCurrentCount (stopAllTests s) = rangingTestCurrentCount s
   \<and> pin25PulseCount (stopAllTests s) = pin25PulseCount s
   \<and> pin26PulseCount (stopAllTests s) = pin26PulseCount s
   \<and> high_writes (stopAllTests s) = high_writes s"
  by (simp add: stopAllTests_def mode_defs high_writes_def prim_defs)

lemma stopAllTests_ranging_layer:
  "usingRangingLayer s \<Longrightarrow>
   new_effects s (stopAllTests s) =
     [DigitalWrite PPK2_TX_PIN LOW, DigitalWrite PPK2_RX_PIN LOW, Driver DW1000_newReceive,
      Driver (DW1000_receivePermanently True), Driver DW1000_startReceive]
   \<and> micros (stopAllTests s) = micros s"
  by (simp add: stopAllTests_def new_effects_def prim_defs)

lemma stopRangingTest_fields:
  "currentTestMode (stopRangingTest s) = MODE_IDLE_TEST
   \<and> currentState (stopRangingTest s) = STATE_IDLE
   \<and> \<not> rangingTestActive (stopRangingTest s)
   \<and> \<not> rangingIdlePeriodActive (stopRangingTest s)
   \<and> \<not> usingRangingLayer (stopRangingTest s)
   \<and> pin25 (stopRangingTest s) = LOW
   \<and> pin26 (stopRangingTest s) = LOW
   \<and> rangingTestCurrentCount (stopRangingTest s) = rangingTestCurrentCount s
   \<and> summaries (stopRangingTest s) = summaries s
   \<and> high_writes (stopRangingTest s) = high_writes s + 2"
  by (simp add: stopRangingTest_def mode_defs summaries_def high_writes_def prim_defs)

lemma stopRangingTest_pulse:
  "take 7 (new_effects s (stopRangingTest s)) =
     [Serial (STOP_TEST_T (millis s)),
      DigitalWrite PPK2_TX_PIN HIGH, DigitalWrite PPK2_RX_PIN HIGH, Delay 20,
      DigitalWrite PPK2_TX_PIN LOW, DigitalWrite PPK2_RX_PIN LOW, Delay 20]"
  by (simp add: stopRangingTest_def mode_defs new_effects_def millis_def prim_defs)

lemma stopRangingTest_count_independent:
  "stopRangingTest (s\<lparr>rangingTestCurrentCount := c\<rparr>)
     = (stopRangingTest s)\<lparr>rangingTestCurrentCount := c\<rparr>"
  by (simp add: stopRangingTest_def mode_defs millis_def prim_defs)

lemma startRangingTest_fields:
  "currentTestMode (startRangingTest n s) = MODE_RANGING_TEST
   \<and> currentState (startRangingTest n s) = STATE_IDLE
   \<and> rangingIdlePeriodActive (startRangingTest n s)
   \<and> \<not> rangingTestActive (startRangingTest n s)
   \<and> rangingTestTargetCount (startRangingTest n s) = n
   \<and> rangingTestCurrentCount (startRangingTest n s) = 0
   \<and> pin25PulseCount (startRangingTest n s) = 0
   \<and> pin26PulseCount (startRangingTest n s) = 0
   \<and> rangingSequenceStartTime (startRangingTest n s) = millis (startRangingTest n s)
   \<and> summaries (startRangingTest n s) = summaries s"
  by (simp add: startRangingTest_def mode_defs summaries_def millis_def prim_defs)

lemma activation:
  assumes "currentTestMode t = MODE_RANGING_TEST" and "rangingIdlePeriodActive t"
    and "RANGING_IDLE_DURATION \<le> millis t - rangingSequenceStartTime t"
  shows "ranging_active (handleRangingTest t)
    \<and> rangingTestCurrentCount (handleRangingTest t) = rangingTestCurrentCount t
    \<and> rangingTestTargetCount (handleRangingTest t) = rangingTestTargetCount t
    \<and> summaries (handleRangingTest t) = summaries t
    \<and> usingRangingLayer (handleRangingTest t)"
  using assms
  by (simp add: handleRangingTest_def ranging_active_def summaries_def mode_defs prim_defs)

lemma handleTxTest_frame:
  "currentSequenceStep (handleTxTest s) = currentSequenceStep s
   \<and> autoSequenceActive (handleTxTest s) = autoSequenceActive s
   \<and> currentTestMode (handleTxTest s) = currentTestMode s
   \<and> sleepDuration (handleTxTest s) = sleepDuration s
   \<and> micros (handleTxTest s) = micros s"
  by (simp add: handleTxTest_def prim_defs)

lemma handleRangingTest_frame:
  "currentSequenceStep (handleRangingTest s) = currentSequenceStep s
   \<and> autoSequenceActive (handleRangingTest s) = autoSequenceActive s"
  by (simp add: handleRangingTest_def mode_defs prim_defs)

lemma handleSleepTest_frame:
  "currentSequenceStep (handleSleepTest s) = currentSequenceStep s
   \<and> autoSequenceActive (handleSleepTest s) = autoSequenceActive s"
  by (simp add: handleSleepTest_def mode_defs prim_defs)

lemma handleAutoSequence_inactive:
  "\<not> autoSequenceActive s \<Longrightarrow> handleAutoSequence s = s"
  by (simp add: handleAutoSequence_def)

lemma callback_frame:
  assumes "\<And>us. e \<noteq> EvTick us"
  shows "currentSequenceStep (deliver e s) = currentSequenceStep s
   \<and> autoSequenceActive (deliver e s) = autoSequenceActive s
   \<and> sleepDuration (deliver e s) = sleepDuration s
   \<and> (currentTestMode s = MODE_AUTO_SEQUENCE \<longrightarrow>
        currentTestMode (deliver e s) = MODE_AUTO_SEQUENCE)"
proof (cases e)
  case (EvTick us)
  with assms [of us] show ?thesis by simp
next
  case (EvRange d)
  then show ?thesis
    by (cases d) (simp_all add: newRange_def stopRangingTest_def mode_defs prim_defs)
qed (simp_all add: handler_defs prim_defs)

subsection \<open>Commands\<close>

lemma parse_unknown:
  "command_name cmd \<notin> recognized_commands \<Longrightarrow>
   parseCommand cmd s = serial (Println ''Unknown command.'') (stopAllTests s)"
  by (simp add: parseCommand_def recognized_commands_def Let_def do_all_def)

lemma parse_ranging:
  "command_name cmd = ''RANGING_TEST'' \<Longrightarrow> 0 < sint (command_arg1 cmd) \<Longrightarrow>
   parseCommand cmd s = startRangingTest (command_arg1 cmd) (stopAllTests s)"
  by (simp add: parseCommand_def Let_def do_all_def)

lemma parse_stop:
  "parseCommand ''STOP_TEST'' s = serial (Println ''All tests stopped.'') (stopAllTests s)"
  by (simp add: parseCommand_def command_name_def Let_def do_all_def)

lemma parse_auto: "parseCommand ''auto'' s = startAutoSequence (stopAllTests s)"
  by (simp add: parseCommand_def command_name_def Let_def do_all_def)

lemma parse_idle: "parseCommand ''IDLE_TEST'' s = startIdleTest (stopAllTests s)"
  by (simp add: parseCommand_def command_name_def Let_def do_all_def)

lemma ranging_command_1:
  "command_name ''RANGING_TEST 1'' = ''RANGING_TEST'' \<and> command_arg1 ''RANGING_TEST 1'' = 1"
  by (simp add: command_name_def command_arg1_def toInt_def isspace_def isdigit_def)

lemma ranging_command_2:
  "command_name ''RANGING_TEST 2'' = ''RANGING_TEST'' \<and> command_arg1 ''RANGING_TEST 2'' = 2"
  by (simp add: command_name_def command_arg1_def toInt_def isspace_def isdigit_def)

lemma booted_fields:
  "currentTestMode booted = MODE_NONE \<and> usingRangingLayer booted \<and> micros booted = 2005000
   \<and> channel booted = 1 \<and> configOption booted = 1 \<and> \<not> oob booted
   \<and> rangingTestCurrentCount booted = 0 \<and> pin25PulseCount booted = 0
   \<and> pin26PulseCount booted = 0"
  by (simp add: booted_def arduino_setup_def initial_state_def mode_defs antennaDelays_def
      channelMap_def prim_defs)

subsection \<open>A ranging session, event by event\<close>

lemma completions_Cons:
  "completions (e # evs) = (if is_completion e then Suc (completions evs) else completions evs)"
  by (simp add: completions_def)

lemma deliver_other:
  assumes "ranging_active s" and "\<not> is_completion e"
  shows "ranging_active (deliver e s)
    \<and> rangingTestCurrentCount (deliver e s) = rangingTestCurrentCount s
    \<and> rangingTestTargetCount (deliver e s) = rangingTestTargetCount s
    \<and> summaries (deliver e s) = summaries s"
proof (cases e)
  case (EvRange d)
  with assms show ?thesis by (cases d) (simp_all add: newRange_def)
qed (use assms in \<open>simp_all add: ranging_active_def summaries_def handler_defs prim_defs\<close>)

lemma deliver_completion_more:
  assumes "ranging_active s"
    and "sint (rangingTestCurrentCount s) + 1 < sint (rangingTestTargetCount s)"
  shows "ranging_active (deliver (EvRange (Some d)) s)
    \<and> rangingTestCurrentCount (deliver (EvRange (Some d)) s) = rangingTestCurrentCount s + 1
    \<and> rangingTestTargetCount (deliver (EvRange (Some d)) s) = rangingTestTargetCount s
    \<and> summaries (deliver (EvRange (Some d)) s) = summaries s"
proof -
  have "sint (rangingTestCurrentCount s + 1) = sint (rangingTestCurrentCount s) + 1"
    using assms(2) by (intro sint_succ [of _ "rangingTestTargetCount s"]) simp
  with assms show ?thesis
    by (simp add: ranging_active_def summaries_def newRange_def prim_defs)
qed

lemma deliver_completion_last:
  assumes "ranging_active s"
    and "sint (rangingTestCurrentCount s) + 1 = sint (rangingTestTargetCount s)"
  shows "currentTestMode (deliver (EvRange (Some d)) s) = MODE_IDLE_TEST
    \<and> rangingTestCurrentCount (deliver (EvRange (Some d)) s) = rangingTestTargetCount s
    \<and> summaries (deliver (EvRange (Some d)) s) = summaries s + 1"
proof -
  have "sint (rangingTestCurrentCount s + 1) = sint (rangingTestCurrentCount s) + 1"
    using assms(2) by (intro sint_succ [of _ "rangingTestTargetCount s"]) simp
  then have "rangingTestCurrentCount s + 1 = rangingTestTargetCount s"
    using assms(2) by (intro signed_word_eqI) simp
  with assms show ?thesis
    by (simp add: ranging_active_def newRange_def stopRangingTest_def mode_defs summaries_def
        prim_defs)
qed

lemma idle_stable:
  assumes "currentTestMode s = MODE_IDLE_TEST"
  shows "currentTestMode (deliver e s) = MODE_IDLE_TEST
    \<and> rangingTestCurrentCount (deliver e s) = rangingTestCurrentCount s
    \<and> summaries (deliver e s) = summaries s"
proof (cases e)
  case (EvRange d)
  with assms show ?thesis by (cases d) (simp_all add: newRange_def)
qed (use assms in \<open>simp_all add: summaries_def handler_defs prim_defs\<close>)

lemma run_idle:
  "currentTestMode s = MODE_IDLE_TEST \<Longrightarrow>
   currentTestMode (run evs s) = MODE_IDLE_TEST
   \<and> rangingTestCurrentCount (run evs s) = rangingTestCurrentCount s
   \<and> summaries (run evs s) = summaries s"
proof (induction evs arbitrary: s)
  case Nil
  then show ?case by (simp add: run_Nil)
next
  case (Cons e evs)
  from idle_stable [OF Cons.prems, of e] Cons.IH [of "deliver e s"]
  show ?case by (simp add: run_Cons)
qed

text \<open>
  An active session whose count is below the target stays active, without a summary, until
  the missing completions have arrived; the completion that reaches the target ends it with
  one summary, and nothing that follows adds another.
\<close>

lemma run_active:
  assumes "ranging_active s"
    and "sint (rangingTestCurrentCount s) < sint (rangingTestTargetCount s)"
  shows "(int (completions evs)
            < sint (rangingTestTargetCount s) - sint (rangingTestCurrentCount s) \<longrightarrow>
           ranging_active (run evs s)
           \<and> sint (rangingTestCurrentCount (run evs s))
               = sint (rangingTestCurrentCount s) + int (completions evs)
           \<and> summaries (run evs s) = summaries s)
       \<and> (sint (rangingTestTargetCount s) - sint (rangingTestCurrentCount s)
            \<le> int (completions evs) \<longrightarrow>
           currentTestMode (run evs s) = MODE_IDLE_TEST
           \<and> rangingTestCurrentCount (run evs s) = rangingTestTargetCount s
           \<and> summaries (run evs s) = summaries s + 1)"
  using assms
proof (induction evs arbitrary: s)
  case Nil
  then show ?case by (simp add: run_Nil completions_def)
next
  case (Cons e evs)
  let ?s' = "deliver e s"
  show ?case
  proof (cases "is_completion e")
    case False
    from deliver_other [OF Cons.prems(1) False]
    have s': "ranging_active ?s'" "rangingTestCurrentCount ?s' = rangingTestCurrentCount s"
      "rangingTestTargetCount ?s' = rangingTestTargetCount s" "summaries ?s' = summaries s"
      by simp_all
    with Cons.prems(2)
    have "sint (rangingTestCurrentCount ?s') < sint (rangingTestTargetCount ?s')"
      by simp
    from Cons.IH [OF s'(1) this] s' False show ?thesis
      by (simp add: run_Cons completions_Cons)
  next
    case True
    then obtain d where e: "e = EvRange (Some d)"
      by (cases e rule: is_completion.cases) simp_all
    show ?thesis
    proof (cases "sint (rangingTestCurrentCount s) + 1 < sint (rangingTestTargetCount s)")
      case more: True
      from deliver_completion_more [OF Cons.prems(1) more, of d] e
      have s': "ranging_active ?s'"
        "rangingTestCurrentCount ?s' = rangingTestCurrentCount s + 1"
        "rangingTestTargetCount ?s' = rangingTestTargetCount s" "summaries ?s' = summaries s"
        by simp_all
      have cnt: "sint (rangingTestCurrentCount ?s') = sint (rangingTestCurrentCount s) + 1"
        using sint_succ [OF Cons.prems(2)] s'(2) by simp
      with more s'(3)
      have "sint (rangingTestCurrentCount ?s') < sint (rangingTestTargetCount ?s')"
        by simp
      from Cons.IH [OF s'(1) this] s' cnt True show ?thesis
        by (simp add: run_Cons completions_Cons)
    next
      case False
      with Cons.prems(2)
      have last: "sint (rangingTestCurrentCount s) + 1 = sint (rangingTestTargetCount s)"
        by simp
      from deliver_completion_last [OF Cons.prems(1) last, of d] e
      have s': "currentTestMode ?s' = MODE_IDLE_TEST"
        "rangingTestCurrentCount ?s' = rangingTestTargetCount s"
        "summaries ?s' = summaries s + 1"
        by simp_all
      from run_idle [OF s'(1), of evs] s' last True show ?thesis
        by (simp add: run_Cons completions_Cons)
    qed
  qed
qed

subsection \<open>The auto sequence, tick by tick\<close>

lemma handleAutoSequence_step:
  "currentSequenceStep (handleAutoSequence s) = currentSequenceStep s
   \<or> (currentSequenceStep (handleAutoSequence s) = next_step (currentSequenceStep s)
       \<and> currentSequenceStep s \<noteq> SEQ_COMPLETE
       \<and> autoSequenceActive s
       \<and> (if currentSequenceStep s = SEQ_SLEEP
           then inDeepSleep s \<and> sleepDuration s \<le> millis s - sleepStartTime s
           else step_duration (currentSequenceStep s) \<le> millis s - sequenceStepStartTime s))"
  by (cases "currentSequenceStep s")
     (simp_all add: handleAutoSequence_def Let_def handleTxTest_frame mode_defs prim_defs)

lemma handleAutoSequence_complete:
  "autoSequenceActive s \<Longrightarrow> currentSequenceStep s = SEQ_COMPLETE \<Longrightarrow>
   \<not> autoSequenceActive (handleAutoSequence s)
   \<and> currentTestMode (handleAutoSequence s) = MODE_NONE
   \<and> currentSequenceStep (handleAutoSequence s) = SEQ_COMPLETE"
  by (simp add: handleAutoSequence_def Let_def prim_defs)

lemma loop_dispatch_step:
  "currentSequenceStep (loop_dispatch s) = currentSequenceStep s
   \<or> (currentSequenceStep (loop_dispatch s) = next_step (currentSequenceStep s)
       \<and> currentSequenceStep s \<noteq> SEQ_COMPLETE
       \<and> autoSequenceActive s
       \<and> (if currentSequenceStep s = SEQ_SLEEP
           then inDeepSleep s \<and> sleepDuration s \<le> millis s - sleepStartTime s
           else step_duration (currentSequenceStep s) \<le> millis s - sequenceStepStartTime s))"
  using handleAutoSequence_step [of s]
  by (cases "currentTestMode s")
     (simp_all add: loop_dispatch_def prim_defs handleTxTest_frame handleRangingTest_frame
        handleSleepTest_frame)

lemma deliver_step:
  "currentSequenceStep (deliver e s) = currentSequenceStep s
   \<or> (currentSequenceStep (deliver e s) = next_step (currentSequenceStep s)
       \<and> currentSequenceStep s \<noteq> SEQ_COMPLETE
       \<and> autoSequenceActive s
       \<and> (\<exists>us. e = EvTick us
             \<and> (if currentSequenceStep s = SEQ_SLEEP
                 then inDeepSleep s
                      \<and> sleepDuration s \<le> millis (elapse us s) - sleepStartTime s
                 else step_duration (currentSequenceStep s)
                        \<le> millis (elapse us s) - sequenceStepStartTime s)))"
proof (cases "\<exists>us. e = EvTick us")
  case True
  then obtain us where "e = EvTick us" by blast
  with loop_dispatch_step [of "elapse us s"] elapse_fields [of us s] show ?thesis
    by auto
next
  case False
  with callback_frame [of e s] show ?thesis by auto
qed

lemma step_index_next: "step_index st \<le> step_index (next_step st)"
  by (cases st) simp_all

lemma run_index:
  "step_index (currentSequenceStep s) \<le> step_index (currentSequenceStep (run evs s))"
proof (induction evs arbitrary: s)
  case Nil
  show ?case by (simp add: run_Nil)
next
  case (Cons e evs)
  have "step_index (currentSequenceStep s) \<le> step_index (currentSequenceStep (deliver e s))"
    using deliver_step [of e s] step_index_next [of "currentSequenceStep s"] by auto
  with Cons.IH [of "deliver e s"] show ?case
    by (simp add: run_Cons)
qed

text \<open>One tick that is due, for the steps that end on the step timer.\<close>

lemma auto_tick:
  assumes "autoSequenceActive s" and "currentTestMode s = MODE_AUTO_SEQUENCE"
    and "currentSequenceStep s = st"
    and "st = SEQ_RX_1 \<or> st = SEQ_IDLE_1 \<or> st = SEQ_TX \<or> st = SEQ_IDLE_2 \<or> st = SEQ_RX_2"
    and "step_duration st \<le> millis (elapse us s) - sequenceStepStartTime s"
  shows "currentSequenceStep (deliver (EvTick us) s) = next_step st
    \<and> autoSequenceActive (deliver (EvTick us) s)
    \<and> currentTestMode (deliver (EvTick us) s) = MODE_AUTO_SEQUENCE
    \<and> micros (deliver (EvTick us) s) = micros s + us
    \<and> sequenceStepStartTime (deliver (EvTick us) s) = millis (elapse us s)"
  using assms
  by (auto simp add: loop_dispatch_def handleAutoSequence_def Let_def handleTxTest_frame
      millis_def prim_defs)

lemma auto_tick_idle_3:
  assumes "autoSequenceActive s" and "currentTestMode s = MODE_AUTO_SEQUENCE"
    and "currentSequenceStep s = SEQ_IDLE_3"
    and "2000 \<le> millis (elapse us s) - sequenceStepStartTime s"
  shows "currentSequenceStep (deliver (EvTick us) s) = SEQ_SLEEP
    \<and> autoSequenceActive (deliver (EvTick us) s)
    \<and> currentTestMode (deliver (EvTick us) s) = MODE_AUTO_SEQUENCE
    \<and> micros (deliver (EvTick us) s) = micros s + us + 100000
    \<and> sequenceStepStartTime (deliver (EvTick us) s) = millis (elapse (us + 100000) s)
    \<and> sleepStartTime (deliver (EvTick us) s) = millis (elapse us s)
    \<and> sleepDuration (deliver (EvTick us) s) = 3000
    \<and> inDeepSleep (deliver (EvTick us) s)"
  using assms
  by (simp add: loop_dispatch_def handleAutoSequence_def Let_def millis_def prim_defs
      add.assoc)

lemma auto_tick_sleep:
  assumes "autoSequenceActive s" and "currentTestMode s = MODE_AUTO_SEQUENCE"
    and "currentSequenceStep s = SEQ_SLEEP" and "inDeepSleep s"
    and "sleepDuration s \<le> millis (elapse us s) - sleepStartTime s"
  shows "currentSequenceStep (deliver (EvTick us) s) = SEQ_COMPLETE
    \<and> autoSequenceActive (deliver (EvTick us) s)
    \<and> currentTestMode (deliver (EvTick us) s) = MODE_AUTO_SEQUENCE"
  using assms
  by (simp add: loop_dispatch_def handleAutoSequence_def Let_def mode_defs millis_def
      prim_defs)

lemma startAutoSequence_fields:
  "currentSequenceStep (startAutoSequence s) = SEQ_RX_1
   \<and> autoSequenceActive (startAutoSequence s)
   \<and> currentTestMode (startAutoSequence s) = MODE_AUTO_SEQUENCE
   \<and> sequenceStepStartTime (startAutoSequence s) = millis s
   \<and> micros (startAutoSequence s) = (if usingRangingLayer s then micros s + 5000 else micros s)"
  by (simp add: startAutoSequence_def mode_defs millis_def prim_defs)

subsection \<open>The observed run\<close>

lemma millis_after_100:
  "(word_of_nat ((m + 100000) div 1000) :: 32 word) = word_of_nat (m div 1000) + 100"
proof -
  have "(m + 1000 * 100) div 1000 = m div 1000 + 100" by simp
  then show ?thesis by simp
qed

lemma handleTxTest_timers:
  "sequenceStepStartTime (handleTxTest s) = sequenceStepStartTime s
   \<and> sleepStartTime (handleTxTest s) = sleepStartTime s
   \<and> inDeepSleep (handleTxTest s) = inDeepSleep s"
  by (simp add: handleTxTest_def prim_defs)

lemma callback_timers:
  assumes "\<And>us. e \<noteq> EvTick us"
  shows "sequenceStepStartTime (deliver e s) = sequenceStepStartTime s
   \<and> sleepStartTime (deliver e s) = sleepStartTime s
   \<and> inDeepSleep (deliver e s) = inDeepSleep s"
proof (cases e)
  case (EvTick us)
  with assms [of us] show ?thesis by simp
next
  case (EvRange d)
  then show ?thesis
    by (cases d) (simp_all add: newRange_def stopRangingTest_def mode_defs prim_defs)
qed (simp_all add: handler_defs prim_defs)

text \<open>
  One call of the handler in an active sequence: if the step stays, the timers stay; if the
  step changes, the step timer holds the clock reading at the end of the call, and on
  entering the sleep step the sleep timer holds the reading at the beginning of the call,
  100 ms earlier.
\<close>

lemma handleAutoSequence_timers:
  assumes "autoSequenceActive t"
  shows "(currentSequenceStep (handleAutoSequence t) = currentSequenceStep t
          \<and> autoSequenceActive (handleAutoSequence t) \<longrightarrow>
            sequenceStepStartTime (handleAutoSequence t) = sequenceStepStartTime t
            \<and> sleepStartTime (handleAutoSequence t) = sleepStartTime t
            \<and> sleepDuration (handleAutoSequence t) = sleepDuration t
            \<and> inDeepSleep (handleAutoSequence t) = inDeepSleep t
            \<and> currentTestMode (handleAutoSequence t) = currentTestMode t)
       \<and> (currentSequenceStep (handleAutoSequence t) \<noteq> currentSequenceStep t \<longrightarrow>
            currentTestMode (handleAutoSequence t) = currentTestMode t
            \<and> (currentSequenceStep (handleAutoSequence t) \<noteq> SEQ_COMPLETE \<longrightarrow>
                 sequenceStepStartTime (handleAutoSequence t) = millis (handleAutoSequence t))
            \<and> (currentSequenceStep (handleAutoSequence t) = SEQ_SLEEP \<longrightarrow>
                 sleepDuration (handleAutoSequence t) = 3000
                 \<and> inDeepSleep (handleAutoSequence t)
                 \<and> sleepStartTime (handleAutoSequence t) = millis t
                 \<and> millis (handleAutoSequence t) = millis t + 100))"
  using assms
  by (cases "currentSequenceStep t")
     (simp_all add: handleAutoSequence_def Let_def handleTxTest_frame handleTxTest_timers
        mode_defs millis_def millis_after_100 prim_defs)

lemma loop_dispatch_inactive:
  "\<not> autoSequenceActive s \<Longrightarrow> \<not> autoSequenceActive (loop_dispatch s)"
  by (cases "currentTestMode s")
     (simp_all add: loop_dispatch_def prim_defs handleTxTest_frame handleRangingTest_frame
        handleSleepTest_frame handleAutoSequence_inactive)

lemma observe_state: "obs_state (observe e ob) = deliver e (obs_state ob)"
  by (simp add: observe_def Let_def)

lemma elapse_auto:
  "currentSequenceStep (elapse us s) = currentSequenceStep s
   \<and> autoSequenceActive (elapse us s) = autoSequenceActive s
   \<and> currentTestMode (elapse us s) = currentTestMode s
   \<and> sequenceStepStartTime (elapse us s) = sequenceStepStartTime s
   \<and> sleepStartTime (elapse us s) = sleepStartTime s
   \<and> sleepDuration (elapse us s) = sleepDuration s
   \<and> inDeepSleep (elapse us s) = inDeepSleep s"
  by (simp add: elapse_def)

lemma observe_inv:
  assumes "obs_inv ob"
  shows "obs_inv (observe e ob)"
proof (cases "autoSequenceActive (obs_state ob)")
  case False
  have "\<not> autoSequenceActive (deliver e (obs_state ob))"
  proof (cases "\<exists>us. e = EvTick us")
    case True
    then obtain us where "e = EvTick us" by blast
    with False loop_dispatch_inactive [of "elapse us (obs_state ob)"]
      elapse_auto [of us "obs_state ob"]
    show ?thesis by simp
  next
    case no_tick: False
    with callback_frame [of e "obs_state ob"] False show ?thesis by auto
  qed
  then show ?thesis by (simp add: obs_inv_def observe_state)
next
  case True
  let ?s = "obs_state ob"
  from True assms have inv:
    "currentTestMode ?s = MODE_AUTO_SEQUENCE"
    "currentSequenceStep ?s \<noteq> SEQ_COMPLETE \<longrightarrow> sequenceStepStartTime ?s = step_began ob"
    "currentSequenceStep ?s = SEQ_SLEEP \<longrightarrow>
       sleepDuration ?s = 3000 \<and> inDeepSleep ?s \<and> sleepStartTime ?s = step_tick ob
       \<and> step_began ob = step_tick ob + 100"
    by (simp_all add: obs_inv_def)
  show ?thesis
  proof (cases "\<exists>us. e = EvTick us")
    case False
    from callback_frame [of e ?s] callback_timers [of e ?s] False inv
    have "currentSequenceStep (deliver e ?s) = currentSequenceStep ?s"
      "currentTestMode (deliver e ?s) = MODE_AUTO_SEQUENCE"
      "sequenceStepStartTime (deliver e ?s) = sequenceStepStartTime ?s"
      "sleepStartTime (deliver e ?s) = sleepStartTime ?s"
      "sleepDuration (deliver e ?s) = sleepDuration ?s"
      "inDeepSleep (deliver e ?s) = inDeepSleep ?s"
      by simp_all
    with inv show ?thesis
      by (simp add: obs_inv_def observe_def Let_def)
  next
    case tick: True
    then obtain us where e: "e = EvTick us" by blast
    let ?t = "elapse us ?s"
    let ?s' = "handleAutoSequence ?t"
    have t: "autoSequenceActive ?t" "currentTestMode ?t = MODE_AUTO_SEQUENCE"
      "currentSequenceStep ?t = currentSequenceStep ?s"
      "sequenceStepStartTime ?t = sequenceStepStartTime ?s"
      "sleepStartTime ?t = sleepStartTime ?s" "sleepDuration ?t = sleepDuration ?s"
      "inDeepSleep ?t = inDeepSleep ?s"
      using True inv(1) elapse_auto [of us ?s] by simp_all
    have d: "deliver e ?s = ?s'"
      using e t(2) by (simp add: loop_dispatch_def)
    have et: "event_time e ?s = millis ?t" using e by simp
    show ?thesis
    proof (cases "currentSequenceStep ?s' = currentSequenceStep ?s")
      case same: True
      then have ob': "observe e ob = ob\<lparr>obs_state := ?s'\<rparr>"
        using d by (simp add: observe_def Let_def)
      show ?thesis
      proof (cases "autoSequenceActive ?s'")
        case False
        then show ?thesis by (simp add: obs_inv_def ob')
      next
        case active: True
        from handleAutoSequence_timers [OF t(1)] same active t
        have "sequenceStepStartTime ?s' = sequenceStepStartTime ?s"
          "sleepStartTime ?s' = sleepStartTime ?s" "sleepDuration ?s' = sleepDuration ?s"
          "inDeepSleep ?s' = inDeepSleep ?s" "currentTestMode ?s' = MODE_AUTO_SEQUENCE"
          by simp_all
        with inv same show ?thesis by (simp add: obs_inv_def ob')
      qed
    next
      case changed: False
      then have ob': "observe e ob =
          \<lparr>obs_state = ?s', step_began = millis ?s', step_tick = millis ?t\<rparr>"
        using d et by (simp add: observe_def Let_def)
      from changed t(3) have "currentSequenceStep ?s' \<noteq> currentSequenceStep ?t" by simp
      with handleAutoSequence_timers [OF t(1)] t(2)
      have "currentTestMode ?s' = MODE_AUTO_SEQUENCE"
        "currentSequenceStep ?s' \<noteq> SEQ_COMPLETE \<longrightarrow> sequenceStepStartTime ?s' = millis ?s'"
        "currentSequenceStep ?s' = SEQ_SLEEP \<longrightarrow>
           sleepDuration ?s' = 3000 \<and> inDeepSleep ?s' \<and> sleepStartTime ?s' = millis ?t
           \<and> millis ?s' = millis ?t + 100"
        by simp_all
      then show ?thesis by (simp add: obs_inv_def ob')
    qed
  qed
qed

lemma fold_observe_inv: "obs_inv ob \<Longrightarrow> obs_inv (fold observe evs ob)"
  by (induction evs arbitrary: ob) (simp_all add: observe_inv)

lemma fold_observe_state: "obs_state (fold observe evs ob) = run evs (obs_state ob)"
  by (induction evs arbitrary: ob) (simp_all add: run_Nil run_Cons observe_state)

lemma observed_run_state: "obs_state (observed_run evs s0) = run evs (startAutoSequence s0)"
  by (simp add: observed_run_def fold_observe_state)

lemma observed_run_inv: "obs_inv (observed_run evs s0)"
  unfolding observed_run_def
  by (rule fold_observe_inv)
     (use startAutoSequence_fields [of s0] in \<open>simp add: obs_inv_def\<close>)

text \<open>A tick that is due moves an active sequence to the next step.\<close>

lemma due_tick_moves:
  assumes "obs_inv ob" and "autoSequenceActive (obs_state ob)"
    and "currentSequenceStep (obs_state ob) \<noteq> SEQ_COMPLETE"
    and "step_due ob us"
  shows "currentSequenceStep (deliver (EvTick us) (obs_state ob))
           = next_step (currentSequenceStep (obs_state ob))"
proof -
  let ?s = "obs_state ob"
  from assms(1,2) have mode: "currentTestMode ?s = MODE_AUTO_SEQUENCE"
    by (simp add: obs_inv_def)
  from assms(1,2,3) have began: "sequenceStepStartTime ?s = step_began ob"
    by (simp add: obs_inv_def)
  show ?thesis
  proof (cases "currentSequenceStep ?s = SEQ_SLEEP")
    case True
    with assms began have "inDeepSleep ?s"
      "sleepDuration ?s \<le> millis (elapse us ?s) - sleepStartTime ?s"
      by (simp_all add: obs_inv_def step_due_def)
    from auto_tick_sleep [OF assms(2) mode True this] True show ?thesis by simp
  next
    case no_sleep: False
    with assms(4) began
    have due: "step_duration (currentSequenceStep ?s)
        \<le> millis (elapse us ?s) - sequenceStepStartTime ?s"
      by (simp add: step_due_def)
    show ?thesis
    proof (cases "currentSequenceStep ?s = SEQ_IDLE_3")
      case True
      with due have "2000 \<le> millis (elapse us ?s) - sequenceStepStartTime ?s" by simp
      from auto_tick_idle_3 [OF assms(2) mode True this] True show ?thesis by simp
    next
      case False
      with no_sleep assms(3)
      have "currentSequenceStep ?s = SEQ_RX_1 \<or> currentSequenceStep ?s = SEQ_IDLE_1
        \<or> currentSequenceStep ?s = SEQ_TX \<or> currentSequenceStep ?s = SEQ_IDLE_2
        \<or> currentSequenceStep ?s = SEQ_RX_2"
        by (cases "currentSequenceStep ?s") simp_all
      from auto_tick [OF assms(2) mode refl this due] show ?thesis by simp
    qed
  qed
qed


subsection \<open>The example states\<close>

lemma startIdleTest_fields:
  "currentTestMode (startIdleTest s) = MODE_IDLE_TEST \<and> \<not> usingRangingLayer (startIdleTest s)"
  by (simp add: startIdleTest_def mode_defs prim_defs)

lemma settle_elapsed:
  "RANGING_IDLE_DURATION
     \<le> millis (elapse 1000000 (startRangingTest n s))
       - rangingSequenceStartTime (startRangingTest n s)"
  using startRangingTest_fields [of n s] millis_elapse_ms [of 1000 "startRangingTest n s"]
  by (simp add: RANGING_IDLE_DURATION_def)

lemma session_becomes_active:
  "ranging_active (loop_dispatch (elapse 1000000 (startRangingTest n s)))
   \<and> rangingTestCurrentCount (loop_dispatch (elapse 1000000 (startRangingTest n s))) = 0
   \<and> rangingTestTargetCount (loop_dispatch (elapse 1000000 (startRangingTest n s))) = n
   \<and> usingRangingLayer (loop_dispatch (elapse 1000000 (startRangingTest n s)))"
proof -
  let ?t = "elapse 1000000 (startRangingTest n s)"
  have t: "currentTestMode ?t = MODE_RANGING_TEST" "rangingIdlePeriodActive ?t"
    "rangingTestTargetCount ?t = n" "rangingTestCurrentCount ?t = 0"
    "rangingSequenceStartTime ?t = rangingSequenceStartTime (startRangingTest n s)"
    using startRangingTest_fields [of n s] elapse_fields [of 1000000 "startRangingTest n s"]
    by simp_all
  from settle_elapsed [of n s] t(5)
  have "RANGING_IDLE_DURATION \<le> millis ?t - rangingSequenceStartTime ?t" by simp
  from activation [OF t(1) t(2) this] t show ?thesis
    by (simp add: loop_dispatch_def)
qed

lemma active_session_fields:
  "ranging_active active_session \<and> rangingTestCurrentCount active_session = 0
   \<and> rangingTestTargetCount active_session = 2 \<and> usingRangingLayer active_session"
proof -
  have "parseCommand ''RANGING_TEST 2'' booted = startRangingTest 2 (stopAllTests booted)"
    using parse_ranging [of "''RANGING_TEST 2''" booted] ranging_command_2 by simp
  with session_becomes_active [of 2 "stopAllTests booted"] show ?thesis
    by (simp add: active_session_def)
qed

lemma finished_session_fields:
  "currentTestMode finished_session = MODE_NONE
   \<and> rangingTestCurrentCount finished_session = 1"
proof -
  let ?a = "loop_dispatch (elapse 1000000 (startRangingTest 1 (stopAllTests booted)))"
  let ?c = "newRange (Some (DeviceHandle 0)) ?a"
  have parse: "parseCommand ''RANGING_TEST 1'' booted = startRangingTest 1 (stopAllTests booted)"
    using parse_ranging [of "''RANGING_TEST 1''" booted] ranging_command_1 by simp
  have a: "ranging_active ?a" "rangingTestCurrentCount ?a = 0" "rangingTestTargetCount ?a = 1"
    using session_becomes_active [of 1 "stopAllTests booted"] by simp_all
  then have "sint (rangingTestCurrentCount ?a) + 1 = sint (rangingTestTargetCount ?a)"
    by simp
  from deliver_completion_last [OF a(1) this, of "DeviceHandle 0"] a
  have "rangingTestCurrentCount ?c = 1" by simp
  with stopAllTests_fields [of ?c] parse show ?thesis
    by (simp add: finished_session_def parse_stop serial_def emit_def)
qed

lemma asleep_fields:
  "currentSequenceStep asleep = SEQ_SLEEP \<and> autoSequenceActive asleep
   \<and> currentTestMode asleep = MODE_AUTO_SEQUENCE \<and> inDeepSleep asleep
   \<and> sleepDuration asleep = 3000 \<and> sleepStartTime asleep = 19010
   \<and> sequenceStepStartTime asleep = 19110 \<and> micros asleep = 19110000"
proof -
  let ?s0 = "startAutoSequence (stopAllTests booted)"
  let ?s1 = "deliver (EvTick 2000000) ?s0"
  let ?s2 = "deliver (EvTick 4000000) ?s1"
  let ?s3 = "deliver (EvTick 3000000) ?s2"
  let ?s4 = "deliver (EvTick 2000000) ?s3"
  let ?s5 = "deliver (EvTick 4000000) ?s4"
  let ?s6 = "deliver (EvTick 2000000) ?s5"
  have b: "usingRangingLayer (stopAllTests booted)" "micros (stopAllTests booted) = 2005000"
    using stopAllTests_fields [of booted] stopAllTests_ranging_layer [of booted] booted_fields
    by simp_all
  have s0: "autoSequenceActive ?s0" "currentTestMode ?s0 = MODE_AUTO_SEQUENCE"
    "currentSequenceStep ?s0 = SEQ_RX_1" "sequenceStepStartTime ?s0 = 2005"
    "micros ?s0 = 2010000"
    using startAutoSequence_fields [of "stopAllTests booted"] b by (simp_all add: millis_def)
  have s1: "autoSequenceActive ?s1" "currentTestMode ?s1 = MODE_AUTO_SEQUENCE"
    "currentSequenceStep ?s1 = SEQ_IDLE_1" "sequenceStepStartTime ?s1 = 4010"
    "micros ?s1 = 4010000"
    using auto_tick [OF s0(1) s0(2) s0(3), of 2000000] s0
    by (simp_all add: millis_def elapse_def)
  have s2: "autoSequenceActive ?s2" "currentTestMode ?s2 = MODE_AUTO_SEQUENCE"
    "currentSequenceStep ?s2 = SEQ_TX" "sequenceStepStartTime ?s2 = 8010"
    "micros ?s2 = 8010000"
    using auto_tick [OF s1(1) s1(2) s1(3), of 4000000] s1
    by (simp_all add: millis_def elapse_def)
  have s3: "autoSequenceActive ?s3" "currentTestMode ?s3 = MODE_AUTO_SEQUENCE"
    "currentSequenceStep ?s3 = SEQ_IDLE_2" "sequenceStepStartTime ?s3 = 11010"
    "micros ?s3 = 11010000"
    using auto_tick [OF s2(1) s2(2) s2(3), of 3000000] s2
    by (simp_all add: millis_def elapse_def)
  have s4: "autoSequenceActive ?s4" "currentTestMode ?s4 = MODE_AUTO_SEQUENCE"
    "currentSequenceStep ?s4 = SEQ_RX_2" "sequenceStepStartTime ?s4 = 13010"
    "micros ?s4 = 13010000"
    using auto_tick [OF s3(1) s3(2) s3(3), of 2000000] s3
    by (simp_all add: millis_def elapse_def)
  have s5: "autoSequenceActive ?s5" "currentTestMode ?s5 = MODE_AUTO_SEQUENCE"
    "currentSequenceStep ?s5 = SEQ_IDLE_3" "sequenceStepStartTime ?s5 = 17010"
    "micros ?s5 = 17010000"
    using auto_tick [OF s4(1) s4(2) s4(3), of 4000000] s4
    by (simp_all add: millis_def elapse_def)
  have "2000 \<le> millis (elapse 2000000 ?s5) - sequenceStepStartTime ?s5"
    using s5 by (simp add: millis_def elapse_def)
  from auto_tick_idle_3 [OF s5(1) s5(2) s5(3) this] s5
  have s6: "currentSequenceStep ?s6 = SEQ_SLEEP \<and> autoSequenceActive ?s6
   \<and> currentTestMode ?s6 = MODE_AUTO_SEQUENCE \<and> inDeepSleep ?s6
   \<and> sleepDuration ?s6 = 3000 \<and> sleepStartTime ?s6 = 19010
   \<and> sequenceStepStartTime ?s6 = 19110 \<and> micros ?s6 = 19110000"
    by (simp add: millis_def elapse_def)
  have "asleep = ?s6"
    by (simp add: asleep_def six_steps_def parse_auto run_Cons run_Nil)
  with s6 show ?thesis by simp
qed

lemma observed_asleep:
  "obs_state (observed_run six_steps (stopAllTests booted)) = asleep
   \<and> step_began (observed_run six_steps (stopAllTests booted)) = 19110
   \<and> step_tick (observed_run six_steps (stopAllTests booted)) = 19010"
proof -
  have st: "obs_state (observed_run six_steps (stopAllTests booted)) = asleep"
    by (simp add: observed_run_state asleep_def parse_auto)
  from observed_run_inv [of six_steps "stopAllTests booted"] st asleep_fields
  show ?thesis by (simp add: obs_inv_def)
qed

section \<open>The claims\<close>

subsection \<open>Ranging session\<close>

text \<open>
  C1. A ranging session is started with a target count \<open>n > 0\<close> and becomes active once the
  settle period has elapsed. Whatever ticks and callbacks follow, as soon as \<open>n\<close> completion
  events have been delivered the session has reported exactly one completion summary, the
  completion count is \<open>n\<close> and the test mode is \<open>MODE_IDLE_TEST\<close>, and later events change
  none of this; with fewer than \<open>n\<close> completion events no summary has been reported and the
  session is still running.
\<close>

theorem ranging_session_reports_completion_once:
  assumes "0 < sint n"
    and "RANGING_IDLE_DURATION
           \<le> millis (elapse us (startRangingTest n s0))
             - rangingSequenceStartTime (startRangingTest n s0)"
  shows "(sint n \<le> int (completions evs) \<longrightarrow>
           summaries (run evs (handleRangingTest (elapse us (startRangingTest n s0))))
             = summaries s0 + 1
           \<and> rangingTestCurrentCount
               (run evs (handleRangingTest (elapse us (startRangingTest n s0)))) = n
           \<and> currentTestMode
               (run evs (handleRangingTest (elapse us (startRangingTest n s0))))
               = MODE_IDLE_TEST)
       \<and> (int (completions evs) < sint n \<longrightarrow>
           summaries (run evs (handleRangingTest (elapse us (startRangingTest n s0))))
             = summaries s0
           \<and> sint (rangingTestCurrentCount
                 (run evs (handleRangingTest (elapse us (startRangingTest n s0)))))
               = int (completions evs)
           \<and> currentTestMode
               (run evs (handleRangingTest (elapse us (startRangingTest n s0))))
               = MODE_RANGING_TEST)"
proof -
  let ?t = "elapse us (startRangingTest n s0)"
  let ?a = "handleRangingTest ?t"
  have t: "currentTestMode ?t = MODE_RANGING_TEST" "rangingIdlePeriodActive ?t"
    "rangingTestTargetCount ?t = n" "rangingTestCurrentCount ?t = 0"
    "summaries ?t = summaries s0"
    "rangingSequenceStartTime ?t = rangingSequenceStartTime (startRangingTest n s0)"
    using startRangingTest_fields [of n s0] elapse_fields [of us "startRangingTest n s0"]
    by simp_all
  from assms(2) t(6) have "RANGING_IDLE_DURATION \<le> millis ?t - rangingSequenceStartTime ?t"
    by simp
  from activation [OF t(1) t(2) this] t
  have a: "ranging_active ?a" "rangingTestCurrentCount ?a = 0" "rangingTestTargetCount ?a = n"
    "summaries ?a = summaries s0"
    by simp_all
  with assms(1) have "sint (rangingTestCurrentCount ?a) < sint (rangingTestTargetCount ?a)"
    by simp
  from run_active [OF a(1) this, of evs] a show ?thesis
    by (simp add: ranging_active_def)
qed

theorem ranging_session_reports_completion_once_witness:
  "0 < sint (2 :: 32 word)
   \<and> RANGING_IDLE_DURATION
       \<le> millis (elapse 1000000 (startRangingTest 2 booted))
         - rangingSequenceStartTime (startRangingTest 2 booted)
   \<and> sint (2 :: 32 word)
       \<le> int (completions [EvRange (Some (DeviceHandle 0)), EvTimestamp, EvTick 1000,
                            EvRange (Some (DeviceHandle 0)), EvRange (Some (DeviceHandle 0))])
   \<and> summaries
       (run [EvRange (Some (DeviceHandle 0)), EvTimestamp, EvTick 1000,
             EvRange (Some (DeviceHandle 0)), EvRange (Some (DeviceHandle 0))]
          (handleRangingTest (elapse 1000000 (startRangingTest 2 booted))))
       = summaries booted + 1
   \<and> rangingTestCurrentCount
       (run [EvRange (Some (DeviceHandle 0)), EvTimestamp, EvTick 1000,
             EvRange (Some (DeviceHandle 0)), EvRange (Some (DeviceHandle 0))]
          (handleRangingTest (elapse 1000000 (startRangingTest 2 booted))))
       = 2
   \<and> currentTestMode
       (run [EvRange (Some (DeviceHandle 0)), EvTimestamp, EvTick 1000,
             EvRange (Some (DeviceHandle 0)), EvRange (Some (DeviceHandle 0))]
          (handleRangingTest (elapse 1000000 (startRangingTest 2 booted))))
       = MODE_IDLE_TEST"
proof -
  have h1: "0 < sint (2 :: 32 word)" by simp
  have h2: "RANGING_IDLE_DURATION
       \<le> millis (elapse 1000000 (startRangingTest 2 booted))
         - rangingSequenceStartTime (startRangingTest 2 booted)"
    by (rule settle_elapsed)
  have h3: "sint (2 :: 32 word)
       \<le> int (completions [EvRange (Some (DeviceHandle 0)), EvTimestamp, EvTick 1000,
                            EvRange (Some (DeviceHandle 0)), EvRange (Some (DeviceHandle 0))])"
    by (simp add: completions_def)
  from ranging_session_reports_completion_once [OF h1 h2,
      of "[EvRange (Some (DeviceHandle 0)), EvTimestamp, EvTick 1000,
           EvRange (Some (DeviceHandle 0)), EvRange (Some (DeviceHandle 0))]"] h1 h2 h3
  show ?thesis by blast
qed

subsection \<open>Stopping\<close>

text \<open>
  C2, as the claim states it, fails: in direct mode \<^verbatim>\<open>stopAllTests\<close> switches the radio to
  the ranging-protocol layer. After \<^verbatim>\<open>IDLE_TEST\<close> the operating-mode flag is false, and the
  stop sets it.
\<close>

theorem stopAllTests_leaves_direct_mode:
  "\<not> usingRangingLayer (parseCommand ''IDLE_TEST'' booted)
   \<and> usingRangingLayer (stopAllTests (parseCommand ''IDLE_TEST'' booted))"
  using startIdleTest_fields [of "stopAllTests booted"]
    stopAllTests_fields [of "parseCommand ''IDLE_TEST'' booted"]
  by (simp add: parse_idle)

text \<open>
  C2, amended. In every state, \<^verbatim>\<open>stopAllTests\<close> resets the test mode to \<open>MODE_NONE\<close> and
  the anchor state to \<open>STATE_IDLE\<close>, clears the transmit-in-progress, deep-sleep, ranging and
  auto-sequence flags, drives both marker pins low and leaves the ranging-protocol layer
  active. Where that layer was active before, the stop only restarts permanent reception;
  where the radio was in direct mode, the stop initialises the ranging-protocol layer.
\<close>

theorem stopAllTests_effect:
  "currentTestMode (stopAllTests s) = MODE_NONE
   \<and> currentState (stopAllTests s) = STATE_IDLE
   \<and> \<not> txInProgress (stopAllTests s)
   \<and> \<not> inDeepSleep (stopAllTests s)
   \<and> \<not> rangingTestActive (stopAllTests s)
   \<and> \<not> rangingIdlePeriodActive (stopAllTests s)
   \<and> \<not> autoSequenceActive (stopAllTests s)
   \<and> pin25 (stopAllTests s) = LOW
   \<and> pin26 (stopAllTests s) = LOW
   \<and> usingRangingLayer (stopAllTests s)
   \<and> (usingRangingLayer s \<longrightarrow>
        new_effects s (stopAllTests s) =
          [DigitalWrite PPK2_TX_PIN LOW, DigitalWrite PPK2_RX_PIN LOW,
           Driver DW1000_newReceive, Driver (DW1000_receivePermanently True),
           Driver DW1000_startReceive])
   \<and> (\<not> usingRangingLayer s \<longrightarrow>
        take 3 (new_effects s (stopAllTests s)) =
          [DigitalWrite PPK2_TX_PIN LOW, DigitalWrite PPK2_RX_PIN LOW,
           Serial (Println ''MODE: Ranging protocol initialized'')])"
proof -
  have "take 3 (new_effects s (stopAllTests s)) =
          [DigitalWrite PPK2_TX_PIN LOW, DigitalWrite PPK2_RX_PIN LOW,
           Serial (Println ''MODE: Ranging protocol initialized'')]"
    if "\<not> usingRangingLayer s"
    using that by (simp add: stopAllTests_def new_effects_def mode_defs prim_defs)
  with stopAllTests_fields [of s] stopAllTests_ranging_layer [of s] show ?thesis
    by simp
qed

theorem stopAllTests_effect_witness:
  "usingRangingLayer booted
   \<and> new_effects booted (stopAllTests booted) =
       [DigitalWrite PPK2_TX_PIN LOW, DigitalWrite PPK2_RX_PIN LOW,
        Driver DW1000_newReceive, Driver (DW1000_receivePermanently True),
        Driver DW1000_startReceive]
   \<and> currentTestMode (stopAllTests booted) = MODE_NONE
   \<and> \<not> usingRangingLayer (startIdleTest booted)
   \<and> take 3 (new_effects (startIdleTest booted) (stopAllTests (startIdleTest booted))) =
       [DigitalWrite PPK2_TX_PIN LOW, DigitalWrite PPK2_RX_PIN LOW,
        Serial (Println ''MODE: Ranging protocol initialized'')]
   \<and> usingRangingLayer (stopAllTests (startIdleTest booted))"
  using stopAllTests_effect [of booted] stopAllTests_effect [of "startIdleTest booted"]
    booted_fields startIdleTest_fields [of booted]
  by simp

text \<open>
  C3, as the claim states it, fails: a command that arrives during an active session stops
  it through \<^verbatim>\<open>stopAllTests\<close>. With the session of two exchanges active and no exchange
  completed yet, \<^verbatim>\<open>STOP_TEST\<close> ends in \<open>MODE_NONE\<close>, where natural completion ends in
  \<open>MODE_IDLE_TEST\<close>, and writes both pins low without any pulse.
\<close>

theorem command_stop_emits_no_pulse:
  "ranging_active active_session
   \<and> sint (rangingTestCurrentCount active_session)
       < sint (rangingTestTargetCount active_session)
   \<and> currentTestMode (parseCommand ''STOP_TEST'' active_session) = MODE_NONE
   \<and> new_effects active_session (parseCommand ''STOP_TEST'' active_session) =
       [DigitalWrite PPK2_TX_PIN LOW, DigitalWrite PPK2_RX_PIN LOW,
        Driver DW1000_newReceive, Driver (DW1000_receivePermanently True),
        Driver DW1000_startReceive, Serial (Println ''All tests stopped.'')]"
proof -
  have "usingRangingLayer active_session" using active_session_fields by simp
  then have "trace (stopAllTests active_session) =
      trace active_session @
        [DigitalWrite PPK2_TX_PIN LOW, DigitalWrite PPK2_RX_PIN LOW,
         Driver DW1000_newReceive, Driver (DW1000_receivePermanently True),
         Driver DW1000_startReceive]"
    by (simp add: stopAllTests_def prim_defs)
  with active_session_fields stopAllTests_fields [of active_session] show ?thesis
    by (simp add: parse_stop serial_def emit_def new_effects_def)
qed

text \<open>
  C3, amended. \<^verbatim>\<open>stopRangingTest\<close>, the stop action of natural completion, does not depend
  on the completion count: at any count it ends in \<open>MODE_IDLE_TEST\<close> and \<open>STATE_IDLE\<close> with
  the radio in direct mode, and the first thing it does after the stop record is the pulse
  pair: both marker pins high, 20 ms, both low, 20 ms. A command that preempts a session runs
  \<^verbatim>\<open>stopAllTests\<close> instead, which drives no pin high and ends in \<open>MODE_NONE\<close>.
\<close>

theorem ranging_stop_paths:
  "currentTestMode (stopRangingTest s) = MODE_IDLE_TEST
   \<and> currentState (stopRangingTest s) = STATE_IDLE
   \<and> \<not> rangingTestActive (stopRangingTest s)
   \<and> \<not> rangingIdlePeriodActive (stopRangingTest s)
   \<and> \<not> usingRangingLayer (stopRangingTest s)
   \<and> pin25 (stopRangingTest s) = LOW
   \<and> pin26 (stopRangingTest s) = LOW
   \<and> take 7 (new_effects s (stopRangingTest s)) =
       [Serial (STOP_TEST_T (millis s)),
        DigitalWrite PPK2_TX_PIN HIGH, DigitalWrite PPK2_RX_PIN HIGH, Delay 20,
        DigitalWrite PPK2_TX_PIN LOW, DigitalWrite PPK2_RX_PIN LOW, Delay 20]
   \<and> high_writes (stopRangingTest s) = high_writes s + 2
   \<and> stopRangingTest (s\<lparr>rangingTestCurrentCount := c\<rparr>)
       = (stopRangingTest s)\<lparr>rangingTestCurrentCount := c\<rparr>
   \<and> currentTestMode (stopAllTests s) = MODE_NONE
   \<and> high_writes (stopAllTests s) = high_writes s"
  using stopRangingTest_fields [of s] stopRangingTest_pulse [of s]
    stopRangingTest_count_independent [of c s] stopAllTests_fields [of s]
  by simp

theorem ranging_stop_paths_witness:
  "currentTestMode (stopRangingTest active_session) = MODE_IDLE_TEST
   \<and> high_writes (stopRangingTest active_session) = high_writes active_session + 2
   \<and> currentTestMode (stopAllTests active_session) = MODE_NONE
   \<and> high_writes (stopAllTests active_session) = high_writes active_session"
  using ranging_stop_paths [of active_session 0] by simp

subsection \<open>Commands\<close>

text \<open>
  C4. A command line whose name is none of the seven recognized commands is answered with
  the diagnostic line \<^verbatim>\<open>Unknown command.\<close> and nothing else happens after the stop that
  precedes every command: no test is started, whatever was running is cancelled, and the
  test mode ends at \<open>MODE_NONE\<close>.
\<close>

theorem unknown_command_cancels:
  assumes "command_name cmd \<notin> recognized_commands"
  shows "parseCommand cmd s = serial (Println ''Unknown command.'') (stopAllTests s)
    \<and> new_effects (stopAllTests s) (parseCommand cmd s) = [Serial (Println ''Unknown command.'')]
    \<and> currentTestMode (parseCommand cmd s) = MODE_NONE
    \<and> currentState (parseCommand cmd s) = STATE_IDLE
    \<and> \<not> rangingTestActive (parseCommand cmd s)
    \<and> \<not> rangingIdlePeriodActive (parseCommand cmd s)
    \<and> \<not> autoSequenceActive (parseCommand cmd s)
    \<and> \<not> inDeepSleep (parseCommand cmd s)
    \<and> \<not> txInProgress (parseCommand cmd s)"
  using parse_unknown [OF assms, of s] stopAllTests_fields [of s]
  by (simp add: serial_def emit_def new_effects_def)

theorem unknown_command_cancels_witness:
  "command_name ''FOO 3'' \<notin> recognized_commands
   \<and> ranging_active active_session
   \<and> currentTestMode (parseCommand ''FOO 3'' active_session) = MODE_NONE
   \<and> \<not> rangingTestActive (parseCommand ''FOO 3'' active_session)
   \<and> new_effects (stopAllTests active_session) (parseCommand ''FOO 3'' active_session)
       = [Serial (Println ''Unknown command.'')]"
proof -
  have h: "command_name ''FOO 3'' \<notin> recognized_commands"
    by (simp add: command_name_def recognized_commands_def)
  from unknown_command_cancels [OF h, of active_session] h active_session_fields
  show ?thesis by blast
qed

text \<open>
  C5. From every prior state \<^verbatim>\<open>startRangingTest\<close> sets the completion count and both pulse
  counters to 0, stores the target count, records the current time as the start of the
  session and enters the settle phase: \<open>MODE_RANGING_TEST\<close>, \<open>STATE_IDLE\<close>, settle flag set,
  active flag clear. A \<^verbatim>\<open>RANGING_TEST\<close> command with a positive count runs it, after the
  stop that precedes every command.
\<close>

theorem startRangingTest_resets:
  "rangingTestCurrentCount (startRangingTest n s) = 0
   \<and> pin25PulseCount (startRangingTest n s) = 0
   \<and> pin26PulseCount (startRangingTest n s) = 0
   \<and> rangingTestTargetCount (startRangingTest n s) = n
   \<and> rangingSequenceStartTime (startRangingTest n s) = millis (startRangingTest n s)
   \<and> rangingIdlePeriodActive (startRangingTest n s)
   \<and> \<not> rangingTestActive (startRangingTest n s)
   \<and> currentTestMode (startRangingTest n s) = MODE_RANGING_TEST
   \<and> currentState (startRangingTest n s) = STATE_IDLE
   \<and> (command_name cmd = ''RANGING_TEST'' \<and> 0 < sint (command_arg1 cmd) \<longrightarrow>
        parseCommand cmd s = startRangingTest (command_arg1 cmd) (stopAllTests s))"
  using startRangingTest_fields [of n s] parse_ranging [of cmd s]
  by simp

theorem startRangingTest_resets_witness:
  "rangingTestCurrentCount finished_session = 1
   \<and> command_name ''RANGING_TEST 2'' = ''RANGING_TEST''
   \<and> 0 < sint (command_arg1 ''RANGING_TEST 2'')
   \<and> rangingTestCurrentCount (parseCommand ''RANGING_TEST 2'' finished_session) = 0
   \<and> pin25PulseCount (parseCommand ''RANGING_TEST 2'' finished_session) = 0
   \<and> pin26PulseCount (parseCommand ''RANGING_TEST 2'' finished_session) = 0
   \<and> rangingTestTargetCount (parseCommand ''RANGING_TEST 2'' finished_session) = 2
   \<and> currentTestMode (parseCommand ''RANGING_TEST 2'' finished_session) = MODE_RANGING_TEST
   \<and> currentState (parseCommand ''RANGING_TEST 2'' finished_session) = STATE_IDLE"
  using startRangingTest_resets [of 2 "stopAllTests finished_session" "''RANGING_TEST 2''"]
    startRangingTest_resets [of 2 finished_session "''RANGING_TEST 2''"]
    ranging_command_2 finished_session_fields
  by simp

text \<open>
  C6, as the claim states it, fails: \<^verbatim>\<open>stopAllTests\<close> never writes the counters. After a
  session of one exchange has completed and \<^verbatim>\<open>STOP_TEST\<close> has returned the sketch to
  \<open>MODE_NONE\<close>, no test is active and the completion count is 1; a further stop leaves it
  at 1.
\<close>

theorem stop_leaves_nonzero_count:
  "currentTestMode finished_session = MODE_NONE
   \<and> currentTestMode (stopAllTests finished_session) = MODE_NONE
   \<and> rangingTestCurrentCount (stopAllTests finished_session) = 1
   \<and> rangingTestCurrentCount (stopAllTests finished_session) \<noteq> 0"
  using finished_session_fields stopAllTests_fields [of finished_session]
  by simp

text \<open>
  C6, amended. In every state in which no test is active, \<^verbatim>\<open>stopAllTests\<close> leaves the test
  mode at \<open>MODE_NONE\<close> and leaves the completion count and both pulse counters as they were:
  at 0 where they were 0, as they are after boot.
\<close>

theorem stop_without_test_keeps_counters:
  assumes "currentTestMode s = MODE_NONE"
  shows "currentTestMode (stopAllTests s) = MODE_NONE
    \<and> rangingTestCurrentCount (stopAllTests s) = rangingTestCurrentCount s
    \<and> pin25PulseCount (stopAllTests s) = pin25PulseCount s
    \<and> pin26PulseCount (stopAllTests s) = pin26PulseCount s"
  using stopAllTests_fields [of s] by simp

theorem stop_without_test_keeps_counters_witness:
  "currentTestMode booted = MODE_NONE
   \<and> currentTestMode (stopAllTests booted) = MODE_NONE
   \<and> rangingTestCurrentCount (stopAllTests booted) = 0
   \<and> pin25PulseCount (stopAllTests booted) = 0
   \<and> pin26PulseCount (stopAllTests booted) = 0"
proof -
  have h: "currentTestMode booted = MODE_NONE" using booted_fields by simp
  from stop_without_test_keeps_counters [OF h] h booted_fields show ?thesis by simp
qed

subsection \<open>Auto sequence\<close>

text \<open>
  C7, as the claim states it, fails for the sleep step. The sleep step begins when the
  handler that leaves idle-3 writes the step, after the 100 ms delay that precedes the deep
  sleep; its exit counts 3000 ms from the clock reading at which that handler was called.
  After the first six steps the sleep step began at 19110 ms, and the tick 2900 ms later
  ends it.
\<close>

theorem sleep_step_ends_early:
  "currentSequenceStep (obs_state (observed_run six_steps (stopAllTests booted))) = SEQ_SLEEP
   \<and> step_began (observed_run six_steps (stopAllTests booted)) = 19110
   \<and> millis (elapse 2900000 (obs_state (observed_run six_steps (stopAllTests booted))))
       - step_began (observed_run six_steps (stopAllTests booted)) = 2900
   \<and> (2900 :: 32 word) < step_duration SEQ_SLEEP
   \<and> currentSequenceStep
       (obs_state (observe (EvTick 2900000) (observed_run six_steps (stopAllTests booted))))
       = SEQ_COMPLETE"
proof -
  have a: "autoSequenceActive asleep" "currentTestMode asleep = MODE_AUTO_SEQUENCE"
    "currentSequenceStep asleep = SEQ_SLEEP" "inDeepSleep asleep"
    using asleep_fields by simp_all
  have "sleepDuration asleep \<le> millis (elapse 2900000 asleep) - sleepStartTime asleep"
    using asleep_fields by (simp add: millis_def elapse_def)
  from auto_tick_sleep [OF a this] asleep_fields observed_asleep show ?thesis
    by (simp add: observe_state millis_def elapse_def)
qed

text \<open>
  C7, amended. In every run of the auto sequence, through ticks and callbacks, the step
  never moves backwards, and one event either leaves the step as it is or moves it to its
  successor in the order receive-1, idle-1, transmit, idle-2, receive-2, idle-3, sleep,
  complete. The step moves only on a tick, and only once the step's duration (2000, 4000,
  3000, 2000, 4000, 2000 ms) has elapsed since the step began, for the first six steps; the
  sleep step ends only once 3000 ms have elapsed since the tick that left idle-3 was
  handled, and the sleep step itself begins 100 ms after that, when the delay before the
  deep sleep is over. Each step is dated by the clock at the moment the step variable
  changes, not by the timer variables of the sketch; in an active sequence those hold
  exactly these dates. A tick at which the exit is due does move the step, and a tick in the
  terminal step clears the active flag and returns the test mode to \<open>MODE_NONE\<close>.
\<close>

theorem auto_sequence_forward:
  "obs_state (observed_run evs s0) = run evs (startAutoSequence s0)
   \<and> step_index (currentSequenceStep (run evs (startAutoSequence s0)))
       \<le> step_index (currentSequenceStep (run (evs @ evs') (startAutoSequence s0)))
   \<and> (currentSequenceStep (deliver e (run evs (startAutoSequence s0)))
         = currentSequenceStep (run evs (startAutoSequence s0))
       \<or> (currentSequenceStep (deliver e (run evs (startAutoSequence s0)))
            = next_step (currentSequenceStep (run evs (startAutoSequence s0)))
          \<and> currentSequenceStep (run evs (startAutoSequence s0)) \<noteq> SEQ_COMPLETE
          \<and> (\<exists>us. e = EvTick us \<and> step_due (observed_run evs s0) us)))
   \<and> obs_inv (observed_run evs s0)
   \<and> (autoSequenceActive (run evs (startAutoSequence s0))
       \<and> currentSequenceStep (run evs (startAutoSequence s0)) = SEQ_SLEEP
       \<longrightarrow> step_began (observed_run evs s0) = step_tick (observed_run evs s0) + 100)
   \<and> (autoSequenceActive (run evs (startAutoSequence s0))
       \<and> currentSequenceStep (run evs (startAutoSequence s0)) \<noteq> SEQ_COMPLETE
       \<and> step_due (observed_run evs s0) us'
       \<longrightarrow> currentSequenceStep (deliver (EvTick us') (run evs (startAutoSequence s0)))
             = next_step (currentSequenceStep (run evs (startAutoSequence s0))))
   \<and> (autoSequenceActive (run evs (startAutoSequence s0))
       \<and> currentSequenceStep (run evs (startAutoSequence s0)) = SEQ_COMPLETE
       \<longrightarrow> \<not> autoSequenceActive (deliver (EvTick us') (run evs (startAutoSequence s0)))
           \<and> currentTestMode (deliver (EvTick us') (run evs (startAutoSequence s0)))
               = MODE_NONE)"
proof -
  let ?ob = "observed_run evs s0"
  let ?s = "run evs (startAutoSequence s0)"
  have st: "obs_state ?ob = ?s" by (rule observed_run_state)
  have inv: "obs_inv ?ob" by (rule observed_run_inv)
  have A: "step_index (currentSequenceStep ?s)
     \<le> step_index (currentSequenceStep (run (evs @ evs') (startAutoSequence s0)))"
    using run_index [of ?s evs'] by (simp add: run_append)
  have B: "currentSequenceStep (deliver e ?s) = currentSequenceStep ?s
       \<or> (currentSequenceStep (deliver e ?s) = next_step (currentSequenceStep ?s)
          \<and> currentSequenceStep ?s \<noteq> SEQ_COMPLETE
          \<and> (\<exists>us. e = EvTick us \<and> step_due ?ob us))"
  proof (cases "currentSequenceStep (deliver e ?s) = currentSequenceStep ?s")
    case True
    then show ?thesis by simp
  next
    case False
    with deliver_step [of e ?s] obtain us where
      mv: "currentSequenceStep (deliver e ?s) = next_step (currentSequenceStep ?s)"
        "currentSequenceStep ?s \<noteq> SEQ_COMPLETE" "autoSequenceActive ?s" "e = EvTick us"
      and g: "if currentSequenceStep ?s = SEQ_SLEEP
          then inDeepSleep ?s \<and> sleepDuration ?s \<le> millis (elapse us ?s) - sleepStartTime ?s
          else step_duration (currentSequenceStep ?s)
                 \<le> millis (elapse us ?s) - sequenceStepStartTime ?s"
      by blast
    from inv st mv(2,3) have began: "sequenceStepStartTime ?s = step_began ?ob"
      by (simp add: obs_inv_def)
    have "step_due ?ob us"
    proof (cases "currentSequenceStep ?s = SEQ_SLEEP")
      case True
      with inv st mv(3) have "sleepDuration ?s = 3000" "sleepStartTime ?s = step_tick ?ob"
        by (simp_all add: obs_inv_def)
      with g True st show ?thesis by (simp add: step_due_def)
    next
      case False
      with g began st show ?thesis by (simp add: step_due_def)
    qed
    with mv show ?thesis by blast
  qed
  have S: "step_began ?ob = step_tick ?ob + 100"
    if "autoSequenceActive ?s" "currentSequenceStep ?s = SEQ_SLEEP"
    using inv st that by (simp add: obs_inv_def)
  have D: "currentSequenceStep (deliver (EvTick us') ?s) = next_step (currentSequenceStep ?s)"
    if "autoSequenceActive ?s" "currentSequenceStep ?s \<noteq> SEQ_COMPLETE" "step_due ?ob us'"
    using due_tick_moves [OF inv, of us'] that st by simp
  have C: "\<not> autoSequenceActive (deliver (EvTick us') ?s)
           \<and> currentTestMode (deliver (EvTick us') ?s) = MODE_NONE"
    if "autoSequenceActive ?s" "currentSequenceStep ?s = SEQ_COMPLETE"
  proof -
    from inv st that have "currentTestMode ?s = MODE_AUTO_SEQUENCE" by (simp add: obs_inv_def)
    with handleAutoSequence_complete [of "elapse us' ?s"] that elapse_fields [of us' ?s]
    show ?thesis by (simp add: loop_dispatch_def)
  qed
  from st A B inv S D C show ?thesis by blast
qed

theorem auto_sequence_forward_witness:
  "autoSequenceActive (run six_steps (startAutoSequence (stopAllTests booted)))
   \<and> currentSequenceStep (run six_steps (startAutoSequence (stopAllTests booted))) = SEQ_SLEEP
   \<and> step_began (observed_run six_steps (stopAllTests booted))
       = step_tick (observed_run six_steps (stopAllTests booted)) + 100
   \<and> step_due (observed_run six_steps (stopAllTests booted)) 2900000
   \<and> currentSequenceStep
       (deliver (EvTick 2900000) (run six_steps (startAutoSequence (stopAllTests booted))))
       = SEQ_COMPLETE
   \<and> autoSequenceActive
       (run (six_steps @ [EvTick 2900000]) (startAutoSequence (stopAllTests booted)))
   \<and> currentSequenceStep
       (run (six_steps @ [EvTick 2900000]) (startAutoSequence (stopAllTests booted)))
       = SEQ_COMPLETE
   \<and> \<not> autoSequenceActive
         (deliver (EvTick 0)
            (run (six_steps @ [EvTick 2900000]) (startAutoSequence (stopAllTests booted))))
   \<and> currentTestMode
       (deliver (EvTick 0)
          (run (six_steps @ [EvTick 2900000]) (startAutoSequence (stopAllTests booted))))
       = MODE_NONE"
proof -
  let ?s = "run six_steps (startAutoSequence (stopAllTests booted))"
  let ?c = "run (six_steps @ [EvTick 2900000]) (startAutoSequence (stopAllTests booted))"
  have s: "?s = asleep" by (simp add: asleep_def parse_auto)
  have c: "?c = deliver (EvTick 2900000) asleep"
    by (simp add: run_append run_Cons run_Nil asleep_def parse_auto)
  have a: "autoSequenceActive asleep" "currentTestMode asleep = MODE_AUTO_SEQUENCE"
    "currentSequenceStep asleep = SEQ_SLEEP" "inDeepSleep asleep"
    using asleep_fields by simp_all
  have "sleepDuration asleep \<le> millis (elapse 2900000 asleep) - sleepStartTime asleep"
    using asleep_fields by (simp add: millis_def elapse_def)
  from auto_tick_sleep [OF a this] c
  have h2: "autoSequenceActive ?c \<and> currentSequenceStep ?c = SEQ_COMPLETE" by simp
  have h1: "autoSequenceActive ?s \<and> currentSequenceStep ?s = SEQ_SLEEP"
    "currentSequenceStep ?s \<noteq> SEQ_COMPLETE"
    using a s by simp_all
  have due: "step_due (observed_run six_steps (stopAllTests booted)) 2900000"
    using observed_asleep asleep_fields
    by (simp add: step_due_def millis_def elapse_def)
  from auto_sequence_forward [of six_steps "stopAllTests booted" "[]" "EvTick 0" 2900000]
    h1 due
  have m: "currentSequenceStep (deliver (EvTick 2900000) ?s)
      = next_step (currentSequenceStep ?s)"
    and b: "step_began (observed_run six_steps (stopAllTests booted))
      = step_tick (observed_run six_steps (stopAllTests booted)) + 100"
    by blast+
  from m h1(1) have m': "currentSequenceStep (deliver (EvTick 2900000) ?s) = SEQ_COMPLETE"
    by simp
  from auto_sequence_forward [of "six_steps @ [EvTick 2900000]" "stopAllTests booted" "[]"
      "EvTick 0" 0] h2
  have t: "\<not> autoSequenceActive (deliver (EvTick 0) ?c)
      \<and> currentTestMode (deliver (EvTick 0) ?c) = MODE_NONE"
    by blast
  from h1(1) b due m' h2 t show ?thesis by blast
qed

subsection \<open>Callbacks and mode switches\<close>

text \<open>
  C8. Unless the test mode is \<open>MODE_RANGING_TEST\<close>, the anchor state \<open>STATE_ACTIVE\<close> and the
  ranging-test-active flag set, the timestamp-available callback and the range-computed
  callback leave the whole state as it is: no counter changes, no pin is written, no record
  is printed.
\<close>

theorem callbacks_noop_outside_active:
  assumes "\<not> (currentTestMode s = MODE_RANGING_TEST \<and> currentState s = STATE_ACTIVE
             \<and> rangingTestActive s)"
  shows "handleTimestampAvailable s = s \<and> newRange device s = s"
  using assms
  by (auto simp add: handleTimestampAvailable_def newRange_def split: option.splits)

theorem callbacks_noop_outside_active_witness:
  "currentTestMode (startRangingTest 3 booted) = MODE_RANGING_TEST
   \<and> currentState (startRangingTest 3 booted) = STATE_IDLE
   \<and> \<not> rangingTestActive (startRangingTest 3 booted)
   \<and> handleTimestampAvailable (startRangingTest 3 booted) = startRangingTest 3 booted
   \<and> newRange (Some (DeviceHandle 0)) (startRangingTest 3 booted) = startRangingTest 3 booted
   \<and> pin25PulseCount (handleTimestampAvailable (startRangingTest 3 booted)) = 0
   \<and> rangingTestCurrentCount (newRange (Some (DeviceHandle 0)) (startRangingTest 3 booted)) = 0"
proof -
  have h: "\<not> (currentTestMode (startRangingTest 3 booted) = MODE_RANGING_TEST
       \<and> currentState (startRangingTest 3 booted) = STATE_ACTIVE
       \<and> rangingTestActive (startRangingTest 3 booted))"
    using startRangingTest_fields [of 3 booted] by simp
  from callbacks_noop_outside_active [OF h, of "Some (DeviceHandle 0)"]
    startRangingTest_fields [of 3 booted]
  show ?thesis by simp
qed

text \<open>
  C9. Switching to direct mode while the ranging-protocol layer is not active changes
  nothing, and switching to ranging-protocol mode while that layer is active changes
  nothing; so each switch, done twice, does what it does once.
\<close>

theorem mode_switch_idempotent:
  "(\<not> usingRangingLayer s \<longrightarrow> initializeDirectMode s = s)
   \<and> (usingRangingLayer s \<longrightarrow> initializeRangingMode s = s)
   \<and> initializeDirectMode (initializeDirectMode s) = initializeDirectMode s
   \<and> initializeRangingMode (initializeRangingMode s) = initializeRangingMode s"
proof -
  have d: "initializeDirectMode t = t" if "\<not> usingRangingLayer t" for t
    using that by (simp add: initializeDirectMode_def)
  have r: "initializeRangingMode t = t" if "usingRangingLayer t" for t
    using that by (simp add: initializeRangingMode_def)
  have "\<not> usingRangingLayer (initializeDirectMode s)"
    by (simp add: mode_defs prim_defs)
  moreover have "usingRangingLayer (initializeRangingMode s)"
    by (simp add: mode_defs prim_defs)
  ultimately show ?thesis using d r by simp
qed

theorem mode_switch_idempotent_witness:
  "usingRangingLayer booted
   \<and> initializeRangingMode booted = booted
   \<and> \<not> usingRangingLayer (startIdleTest booted)
   \<and> initializeDirectMode (startIdleTest booted) = startIdleTest booted"
  using mode_switch_idempotent [of booted] mode_switch_idempotent [of "startIdleTest booted"]
    booted_fields startIdleTest_fields [of booted]
  by simp

subsection \<open>Lookup tables\<close>

text \<open>
  C10. \<^verbatim>\<open>getAntennaDelayForChannel\<close> returns \<open>antennaDelays[ch]\<close> for \<open>ch \<le> 7\<close> and 16534
  otherwise, and \<^verbatim>\<open>applyChannelConfiguration\<close> sets the channel to \<open>channelMap[configOption]\<close>
  for \<open>configOption \<le> 6\<close> and to 5 otherwise; every index that is read lies inside its
  table, so neither function ever reads out of bounds.
\<close>

theorem lookups_total:
  "getAntennaDelayForChannel ch = Some (if ch \<le> 7 then antennaDelays ! unat ch else 16534)
   \<and> (ch \<le> 7 \<longrightarrow> unat ch < length antennaDelays)
   \<and> channelForOption opt = Some (if opt \<le> 6 then channelMap ! unat opt else 5)
   \<and> (opt \<le> 6 \<longrightarrow> unat opt < length channelMap)
   \<and> channel (applyChannelConfiguration s)
       = (if configOption s \<le> 6 then channelMap ! unat (configOption s) else 5)
   \<and> oob (applyChannelConfiguration s) = oob s
   \<and> oob (initializeDirectMode s) = oob s"
proof -
  have "unat ch < length antennaDelays" if "ch \<le> 7"
    using that by (simp add: length_antennaDelays word_le_nat_alt)
  moreover have "unat opt < length channelMap" if "opt \<le> 6"
    using that by (simp add: length_channelMap word_le_nat_alt)
  moreover have "channel (applyChannelConfiguration s)
       = (if configOption s \<le> 6 then channelMap ! unat (configOption s) else 5)"
    by (simp add: mode_defs prim_defs)
  moreover have "oob (applyChannelConfiguration s) = oob s"
    by (simp add: mode_defs prim_defs)
  moreover have "oob (initializeDirectMode s) = oob s"
    by (simp add: mode_defs prim_defs)
  ultimately show ?thesis
    using antenna_delay_Some [of ch] channel_option_Some [of opt] by simp
qed

theorem lookups_total_witness:
  "(7 :: 8 word) \<le> 7
   \<and> getAntennaDelayForChannel 7 = Some 16401
   \<and> getAntennaDelayForChannel 8 = Some 16534
   \<and> (6 :: 8 word) \<le> 6
   \<and> channelForOption 6 = Some 7
   \<and> channelForOption 7 = Some 5
   \<and> channel (applyChannelConfiguration (initial_state\<lparr>configOption := 6\<rparr>)) = 7
   \<and> \<not> oob (applyChannelConfiguration (initial_state\<lparr>configOption := 6\<rparr>))"
  using lookups_total [of 7 6 "initial_state\<lparr>configOption := 6\<rparr>"]
    lookups_total [of 8 7 "initial_state\<lparr>configOption := 6\<rparr>"]
  by (simp add: antennaDelays_def channelMap_def initial_state_def)

end
